theory Spec2Isabelle
  imports Complex_Main "HOL-Library.AList"
begin

section \<open>Bot hosting backend (src/app.py): data model\<close>

text \<open>
  The Flask application keeps two module-level dictionaries, \<^verbatim>\<open>bots_db\<close> and
  \<^verbatim>\<open>running_processes\<close>, and talks to the operating system (files under
  \<^verbatim>\<open>/tmp/bots\<close>, child processes, the clock, psutil). Both dictionaries are
  association lists here: insertion order is kept, \<open>map_of\<close> is the lookup,
  \<open>AList.update\<close> is \<^verbatim>\<open>d[k] = v\<close> and \<open>AList.delete\<close> is
  \<^verbatim>\<open>del d[k]\<close>.
\<close>

subsection \<open>Values sent back by jsonify\<close>

datatype json =
    JStr string
  | JNum rat
  | JBool bool
  | JObj "(string \<times> json) list"

type_synonym response = "json \<times> nat"

fun jget :: "json \<Rightarrow> string \<Rightarrow> json option" where
  "jget (JObj kvs) k = map_of kvs k"
| "jget _ k = None"

subsection \<open>Exceptions\<close>

text \<open>
  The handlers of the source tell three classes apart: \<^verbatim>\<open>subprocess.TimeoutExpired\<close>
  (caught on its own in \<^verbatim>\<open>stop_bot\<close>), every other \<^verbatim>\<open>Exception\<close>, and whatever a
  bare \<^verbatim>\<open>except:\<close> swallows. Each exception carries the text of \<^verbatim>\<open>str(e)\<close>.
\<close>

datatype exn = TimeoutExpired string | OtherException string

fun exn_str :: "exn \<Rightarrow> string" where
  "exn_str (TimeoutExpired m) = m"
| "exn_str (OtherException m) = m"

subsection \<open>The operating system\<close>

datatype call =
    Save string
  | OpenW string
  | Popen "string list" string
  | Terminate nat
  | Wait nat nat
  | Kill nat
  | Remove string
  | ReadText string

text \<open>
  \<open>files\<close> maps a path to the text \<^verbatim>\<open>f.read()\<close> returns for it; \<open>procs\<close> are the
  child processes that have not been waited for (running, or dead and not yet reaped); \<open>clock\<close> is \<^verbatim>\<open>int(time.time())\<close> and \<open>now_iso\<close> is
  \<^verbatim>\<open>datetime.now().isoformat()\<close>; \<open>raises\<close> says which library call fails and with
  what; \<open>psutil_sample\<close> is the body of the \<^verbatim>\<open>try\<close> in \<^verbatim>\<open>get_process_stats\<close>
  (the two rounded floating-point readings, or \<open>None\<close> when psutil raises);
  \<open>trace\<close> records the calls that act on the system, in order.
\<close>

record os_state =
  files :: "string \<rightharpoonup> string"
  procs :: "nat set"
  next_pid :: nat
  clock :: nat
  now_iso :: string
  raises :: "call \<Rightarrow> exn option"
  psutil_sample :: "nat \<Rightarrow> (rat \<times> rat) option"
  trace :: "call list"

definition invoke :: "call \<Rightarrow> os_state \<Rightarrow> exn option \<times> os_state" where
  "invoke c w = (raises w c, w\<lparr>trace := trace w @ [c]\<rparr>)"

definition os_path_exists :: "string \<Rightarrow> os_state \<Rightarrow> bool" where
  "os_path_exists p w = (files w p \<noteq> None)"

definition file_save :: "string \<Rightarrow> string \<Rightarrow> os_state \<Rightarrow> (exn + unit) \<times> os_state" where
  "file_save p content w =
     (case invoke (Save p) w of
        (Some e, w1) \<Rightarrow> (Inl e, w1)
      | (None, w1) \<Rightarrow> (Inr (), w1\<lparr>files := (files w1)(p \<mapsto> content)\<rparr>))"

definition open_w :: "string \<Rightarrow> os_state \<Rightarrow> (exn + unit) \<times> os_state" where
  "open_w p w =
     (case invoke (OpenW p) w of
        (Some e, w1) \<Rightarrow> (Inl e, w1)
      | (None, w1) \<Rightarrow> (Inr (), w1\<lparr>files := (files w1)(p \<mapsto> [])\<rparr>))"

definition popen :: "string list \<Rightarrow> string \<Rightarrow> os_state \<Rightarrow> (exn + nat) \<times> os_state" where
  "popen cmd cwd w =
     (case invoke (Popen cmd cwd) w of
        (Some e, w1) \<Rightarrow> (Inl e, w1)
      | (None, w1) \<Rightarrow>
          (Inr (next_pid w1),
           w1\<lparr>procs := insert (next_pid w1) (procs w1), next_pid := Suc (next_pid w1)\<rparr>))"

definition terminate :: "nat \<Rightarrow> os_state \<Rightarrow> (exn + unit) \<times> os_state" where
  "terminate p w =
     (case invoke (Terminate p) w of
        (Some e, w1) \<Rightarrow> (Inl e, w1)
      | (None, w1) \<Rightarrow> (Inr (), w1))"

definition wait :: "nat \<Rightarrow> nat \<Rightarrow> os_state \<Rightarrow> (exn + unit) \<times> os_state" where
  "wait p timeout w =
     (case invoke (Wait p timeout) w of
        (Some e, w1) \<Rightarrow> (Inl e, w1)
      | (None, w1) \<Rightarrow> (Inr (), w1\<lparr>procs := procs w1 - {p}\<rparr>))"

text \<open>\<^verbatim>\<open>Popen.kill()\<close> only sends SIGKILL, as \<^verbatim>\<open>Popen.terminate()\<close> only sends SIGTERM:
  neither waits for the child, which leaves \<open>procs\<close> when a \<^verbatim>\<open>wait\<close> returns.\<close>

definition kill :: "nat \<Rightarrow> os_state \<Rightarrow> (exn + unit) \<times> os_state" where
  "kill p w =
     (case invoke (Kill p) w of
        (Some e, w1) \<Rightarrow> (Inl e, w1)
      | (None, w1) \<Rightarrow> (Inr (), w1))"

definition os_remove :: "string \<Rightarrow> os_state \<Rightarrow> (exn + unit) \<times> os_state" where
  "os_remove p w =
     (case invoke (Remove p) w of
        (Some e, w1) \<Rightarrow> (Inl e, w1)
      | (None, w1) \<Rightarrow>
          (if files w1 p = None then (Inl (OtherException ''FileNotFoundError''), w1)
           else (Inr (), w1\<lparr>files := (files w1)(p := None)\<rparr>)))"

definition read_text :: "string \<Rightarrow> os_state \<Rightarrow> exn + string" where
  "read_text p w =
     (case raises w (ReadText p) of
        Some e \<Rightarrow> Inl e
      | None \<Rightarrow>
          (case files w p of
             None \<Rightarrow> Inl (OtherException ''FileNotFoundError'')
           | Some text \<Rightarrow> Inr text))"

subsection \<open>Strings\<close>

definition os_path_join :: "string \<Rightarrow> string \<Rightarrow> string" where
  "os_path_join a b =
     (if take 1 b = ''/'' then b
      else if a = [] \<or> last a = CHR ''/'' then a @ b
      else a @ ''/'' @ b)"

text \<open>\<^verbatim>\<open>s.rsplit(c, 1)\<close>: one piece when \<open>c\<close> does not occur, else the text before the
  last \<open>c\<close> and the text after it.\<close>

definition rsplit1 :: "char \<Rightarrow> string \<Rightarrow> string list" where
  "rsplit1 c s =
     (if c \<in> set s
      then [rev (drop 1 (dropWhile (\<lambda>x. x \<noteq> c) (rev s))), rev (takeWhile (\<lambda>x. x \<noteq> c) (rev s))]
      else [s])"

text \<open>\<^verbatim>\<open>str.lower()\<close> on the ASCII letters (a \<open>char\<close> is a byte).\<close>

definition lower_char :: "char \<Rightarrow> char" where
  "lower_char c =
     (case map_of (zip ''ABCDEFGHIJKLMNOPQRSTUVWXYZ'' ''abcdefghijklmnopqrstuvwxyz'') c of
        Some l \<Rightarrow> l
      | None \<Rightarrow> c)"

definition lower :: "string \<Rightarrow> string" where
  "lower s = map lower_char s"

text \<open>The decimal rendering an f-string gives a non-negative \<^verbatim>\<open>int\<close>.\<close>

fun string_of_nat :: "nat \<Rightarrow> string" where
  "string_of_nat n =
     (if n < 10 then [''0123456789'' ! n]
      else string_of_nat (n div 10) @ [''0123456789'' ! (n mod 10)])"

text \<open>\<^verbatim>\<open>s.split('\n')\<close> and \<^verbatim>\<open>'\n'.join(xs)\<close>.\<close>

fun split_nl :: "string \<Rightarrow> string list" where
  "split_nl [] = [[]]"
| "split_nl (x # xs) =
     (if x = CHR 0x0A then [] # split_nl xs
      else (x # hd (split_nl xs)) # tl (split_nl xs))"

fun join_nl :: "string list \<Rightarrow> string" where
  "join_nl [] = []"
| "join_nl [l] = l"
| "join_nl (l # ls) = l @ [CHR 0x0A] @ join_nl ls"

text \<open>\<^verbatim>\<open>xs[-n:]\<close> for \<open>n > 0\<close>.\<close>

definition last_n :: "nat \<Rightarrow> 'a list \<Rightarrow> 'a list" where
  "last_n n xs = drop (length xs - n) xs"

section \<open>Configuration and helpers of app.py\<close>

definition UPLOAD_FOLDER :: string where
  "UPLOAD_FOLDER = ''/tmp/bots''"

definition ALLOWED_EXTENSIONS :: "string set" where
  "ALLOWED_EXTENSIONS = {''py'', ''js''}"

definition MAX_BOTS_PER_USER :: nat where
  "MAX_BOTS_PER_USER = 3"

text \<open>The dictionary stored per bot (lines 112-120); the key \<^verbatim>\<open>'id'\<close> is the field
  \<open>ident\<close>.\<close>

record bot_data =
  ident :: string
  name :: string
  username :: string
  filepath :: string
  file_type :: string
  created_at :: string
  status :: string

text \<open>The dictionary stored per running bot (lines 162-167); the \<^verbatim>\<open>Popen\<close> object is
  named by the pid of its child.\<close>

record running_process =
  pid :: nat
  process :: nat
  log_file :: string
  started_at :: string

record state =
  bots_db :: "(string \<times> bot_data) list"
  running_processes :: "(string \<times> running_process) list"
  os :: os_state

text \<open>\<^verbatim>\<open>bot_data.copy()\<close>, as the key/value pairs jsonify will see.\<close>

definition bot_dict :: "bot_data \<Rightarrow> (string \<times> json) list" where
  "bot_dict b =
     [(''id'', JStr (ident b)),
      (''name'', JStr (name b)),
      (''username'', JStr (username b)),
      (''filepath'', JStr (filepath b)),
      (''file_type'', JStr (file_type b)),
      (''created_at'', JStr (created_at b)),
      (''status'', JStr (status b))]"

definition allowed_file :: "string \<Rightarrow> bool" where
  "allowed_file filename =
     (CHR ''.'' \<in> set filename \<and> lower (rsplit1 CHR ''.'' filename ! 1) \<in> ALLOWED_EXTENSIONS)"

definition generate_bot_id :: "os_state \<Rightarrow> string \<Rightarrow> string \<Rightarrow> string" where
  "generate_bot_id w user bot_name = user @ ''_'' @ bot_name @ ''_'' @ string_of_nat (clock w)"

record stats =
  cpu :: rat
  memory :: rat

definition get_process_stats :: "os_state \<Rightarrow> nat \<Rightarrow> stats" where
  "get_process_stats w p =
     (case psutil_sample w p of
        Some (c, m) \<Rightarrow> \<lparr>cpu = c, memory = m\<rparr>
      | None \<Rightarrow> \<lparr>cpu = 0, memory = 0\<rparr>)"

definition failure :: "string \<Rightarrow> json" where
  "failure msg = JObj [(''success'', JBool False), (''message'', JStr msg)]"

definition log_path :: "string \<Rightarrow> string" where
  "log_path bot_id = os_path_join UPLOAD_FOLDER (bot_id @ ''.log'')"

section \<open>The routes\<close>

subsection \<open>POST /api/bot/upload\<close>

text \<open>
  The request: the uploaded file (its client file name and its bytes) when the part
  \<^verbatim>\<open>bot_file\<close> is present, and the two form fields. \<^verbatim>\<open>secure_filename\<close> is
  werkzeug's and is a parameter. An exception of \<^verbatim>\<open>file.save\<close> is not caught by the
  route: it leaves the view function (\<open>Inl\<close>).
\<close>

record upload_request =
  files_bot_file :: "(string \<times> string) option"
  form_username :: "string option"
  form_bot_name :: "string option"

definition falsy :: "string option \<Rightarrow> bool" where
  "falsy v = (case v of None \<Rightarrow> True | Some s \<Rightarrow> s = [])"

definition user_bot_count :: "state \<Rightarrow> string \<Rightarrow> nat" where
  "user_bot_count s user = length (filter (\<lambda>b. username b = user) (map snd (bots_db s)))"

definition upload_bot ::
  "(string \<Rightarrow> string) \<Rightarrow> state \<Rightarrow> upload_request \<Rightarrow> (exn + response) \<times> state" where
  "upload_bot secure_filename s req =
     (case files_bot_file req of
        None \<Rightarrow> (Inr (failure ''No file uploaded'', 400), s)
      | Some (fname, content) \<Rightarrow>
          if falsy (form_username req) \<or> falsy (form_bot_name req)
          then (Inr (failure ''Missing username or bot_name'', 400), s)
          else
            let user = the (form_username req);
                bot_name = the (form_bot_name req)
            in
              if user_bot_count s user \<ge> MAX_BOTS_PER_USER
              then (Inr (failure (''Free tier limit: '' @ string_of_nat MAX_BOTS_PER_USER
                                   @ '' bots per user''), 403), s)
              else if fname \<noteq> [] \<and> allowed_file fname
              then
                let bot_id = generate_bot_id (os s) user bot_name;
                    fname' = secure_filename (bot_id @ ''.'' @ rsplit1 CHR ''.'' fname ! 1);
                    path = os_path_join UPLOAD_FOLDER fname'
                in
                  (case file_save path content (os s) of
                     (Inl e, w1) \<Rightarrow> (Inl e, s\<lparr>os := w1\<rparr>)
                   | (Inr _, w1) \<Rightarrow>
                       (Inr (JObj [(''success'', JBool True),
                                   (''message'', JStr ''Bot uploaded successfully''),
                                   (''bot_id'', JStr bot_id)], 200),
                        s\<lparr>bots_db :=
                             AList.update bot_id
                               \<lparr>ident = bot_id,
                                name = bot_name,
                                username = user,
                                filepath = path,
                                file_type = rsplit1 CHR ''.'' fname ! 1,
                                created_at = now_iso w1,
                                status = ''stopped''\<rparr>
                               (bots_db s),
                           os := w1\<rparr>))
              else (Inr (failure ''Invalid file type'', 400), s))"

subsection \<open>POST /api/bot/start\<close>

text \<open>The body of the \<^verbatim>\<open>try\<close> once the command is chosen: open the log for writing,
  spawn, record the process. Whatever is raised there is answered with a 500.\<close>

definition launch :: "state \<Rightarrow> string \<Rightarrow> string list \<Rightarrow> (exn + response) \<times> state" where
  "launch s bot_id cmd =
     (case open_w (log_path bot_id) (os s) of
        (Inl e, w1) \<Rightarrow>
          (Inr (failure (''Failed to start bot: '' @ exn_str e), 500), s\<lparr>os := w1\<rparr>)
      | (Inr _, w1) \<Rightarrow>
          (case popen cmd UPLOAD_FOLDER w1 of
             (Inl e, w2) \<Rightarrow>
               (Inr (failure (''Failed to start bot: '' @ exn_str e), 500), s\<lparr>os := w2\<rparr>)
           | (Inr p, w2) \<Rightarrow>
               (Inr (JObj [(''success'', JBool True),
                           (''message'', JStr ''Bot started successfully''),
                           (''pid'', JNum (of_nat p))], 200),
                s\<lparr>running_processes :=
                     AList.update bot_id
                       \<lparr>pid = p, process = p, log_file = log_path bot_id,
                        started_at = now_iso w2\<rparr>
                       (running_processes s),
                   os := w2\<rparr>)))"

definition start_bot :: "state \<Rightarrow> string \<Rightarrow> (exn + response) \<times> state" where
  "start_bot s bot_id =
     (case map_of (bots_db s) bot_id of
        None \<Rightarrow> (Inr (failure ''Bot not found'', 404), s)
      | Some b \<Rightarrow>
          if map_of (running_processes s) bot_id \<noteq> None
          then (Inr (failure ''Bot already running'', 400), s)
          else if file_type b = ''py'' then launch s bot_id [''python3'', filepath b]
          else if file_type b = ''js'' then launch s bot_id [''node'', filepath b]
          else (Inr (failure ''Unsupported file type'', 400), s))"

subsection \<open>POST /api/bot/stop\<close>

text \<open>\<^verbatim>\<open>process.terminate(); process.wait(timeout=5)\<close>, shared by stop and delete.\<close>

definition terminate_then_wait :: "nat \<Rightarrow> os_state \<Rightarrow> (exn + unit) \<times> os_state" where
  "terminate_then_wait p w =
     (case terminate p w of
        (Inl e, w1) \<Rightarrow> (Inl e, w1)
      | (Inr _, w1) \<Rightarrow> wait p 5 w1)"

definition stop_bot :: "state \<Rightarrow> string \<Rightarrow> (exn + response) \<times> state" where
  "stop_bot s bot_id =
     (case map_of (running_processes s) bot_id of
        None \<Rightarrow> (Inr (failure ''Bot is not running'', 400), s)
      | Some rp \<Rightarrow>
          (case terminate_then_wait (process rp) (os s) of
             (Inr _, w1) \<Rightarrow>
               (Inr (JObj [(''success'', JBool True),
                           (''message'', JStr ''Bot stopped successfully'')], 200),
                s\<lparr>running_processes := AList.delete bot_id (running_processes s), os := w1\<rparr>)
           | (Inl (TimeoutExpired m), w1) \<Rightarrow>
               (case kill (process rp) w1 of
                  (Inl e, w2) \<Rightarrow> (Inl e, s\<lparr>os := w2\<rparr>)
                | (Inr _, w2) \<Rightarrow>
                    (Inr (JObj [(''success'', JBool True),
                                (''message'', JStr ''Bot force-stopped'')], 200),
                     s\<lparr>running_processes := AList.delete bot_id (running_processes s),
                        os := w2\<rparr>))
           | (Inl (OtherException m), w1) \<Rightarrow>
               (Inr (failure (''Failed to stop bot: '' @ m), 500), s\<lparr>os := w1\<rparr>)))"

subsection \<open>DELETE /api/bot/delete\<close>

text \<open>The first \<^verbatim>\<open>try\<close> of delete: on any exception the bare \<^verbatim>\<open>except\<close> passes, and
  the entry of the process table stays.\<close>

definition stop_if_running :: "state \<Rightarrow> string \<Rightarrow> state" where
  "stop_if_running s bot_id =
     (case map_of (running_processes s) bot_id of
        None \<Rightarrow> s
      | Some rp \<Rightarrow>
          (case terminate_then_wait (process rp) (os s) of
             (Inr _, w1) \<Rightarrow>
               s\<lparr>running_processes := AList.delete bot_id (running_processes s), os := w1\<rparr>
           | (Inl e, w1) \<Rightarrow> s\<lparr>os := w1\<rparr>))"

text \<open>The second \<^verbatim>\<open>try\<close>: the script, then the log; the first exception ends it.\<close>

definition delete_files :: "bot_data \<Rightarrow> string \<Rightarrow> os_state \<Rightarrow> os_state" where
  "delete_files b bot_id w =
     (case (if os_path_exists (filepath b) w then os_remove (filepath b) w
            else (Inr (), w)) of
        (Inl e, w1) \<Rightarrow> w1
      | (Inr _, w1) \<Rightarrow>
          (if os_path_exists (log_path bot_id) w1 then snd (os_remove (log_path bot_id) w1)
           else w1))"

definition delete_bot :: "state \<Rightarrow> string \<Rightarrow> (exn + response) \<times> state" where
  "delete_bot s bot_id =
     (case map_of (bots_db s) bot_id of
        None \<Rightarrow> (Inr (failure ''Bot not found'', 404), s)
      | Some b \<Rightarrow>
          let s1 = stop_if_running s bot_id;
              w2 = delete_files b bot_id (os s1)
          in (Inr (JObj [(''success'', JBool True),
                         (''message'', JStr ''Bot deleted successfully'')], 200),
              s1\<lparr>bots_db := AList.delete bot_id (bots_db s1), os := w2\<rparr>))"

subsection \<open>GET /api/bot/logs\<close>

definition get_bot_logs :: "state \<Rightarrow> string \<Rightarrow> response" where
  "get_bot_logs s bot_id =
     (case map_of (bots_db s) bot_id of
        None \<Rightarrow> (failure ''Bot not found'', 404)
      | Some b \<Rightarrow>
          if \<not> os_path_exists (log_path bot_id) (os s)
          then (JObj [(''success'', JBool True), (''logs'', JStr ''No logs available yet'')], 200)
          else
            (case read_text (log_path bot_id) (os s) of
               Inl e \<Rightarrow> (failure (''Failed to read logs: '' @ exn_str e), 500)
             | Inr logs \<Rightarrow>
                 let lines = split_nl logs;
                     logs' = (if length lines > 1000 then join_nl (last_n 1000 lines) else logs)
                 in (JObj [(''success'', JBool True), (''logs'', JStr logs')], 200)))"

subsection \<open>GET /api/bot/status\<close>

definition get_bot_status :: "state \<Rightarrow> string \<Rightarrow> response" where
  "get_bot_status s bot_id =
     (case map_of (bots_db s) bot_id of
        None \<Rightarrow> (failure ''Bot not found'', 404)
      | Some b \<Rightarrow>
          let info = bot_dict b;
              info' =
                (case map_of (running_processes s) bot_id of
                   Some rp \<Rightarrow>
                     let st = get_process_stats (os s) (pid rp)
                     in AList.update ''started_at'' (JStr (started_at rp))
                          (AList.update ''memory'' (JNum (memory st))
                            (AList.update ''cpu'' (JNum (cpu st))
                              (AList.update ''status'' (JStr ''running'') info)))
                 | None \<Rightarrow>
                     AList.update ''memory'' (JNum 0)
                       (AList.update ''cpu'' (JNum 0)
                         (AList.update ''status'' (JStr ''stopped'') info)))
          in (JObj [(''success'', JBool True), (''bot'', JObj info')], 200))"

text \<open>What a caller reads off the answer of the status route under the key \<open>k\<close> of
  its \<^verbatim>\<open>bot\<close> object.\<close>

definition reported :: "state \<Rightarrow> string \<Rightarrow> string \<Rightarrow> json option" where
  "reported s bot_id k =
     (case jget (fst (get_bot_status s bot_id)) ''bot'' of
        None \<Rightarrow> None
      | Some info \<Rightarrow> jget info k)"

section \<open>Example states\<close>

text \<open>A machine with no file and no child process, at 2023-11-14 22:13:20 UTC, on which
  no library call fails.\<close>

definition ex_os :: os_state where
  "ex_os = \<lparr>files = Map.empty, procs = {}, next_pid = 100, clock = 1700000000,
     now_iso = ''2023-11-14T22:13:20'', raises = (\<lambda>c. None),
     psutil_sample = (\<lambda>p. None), trace = []\<rparr>"

definition ex_empty :: state where
  "ex_empty = \<lparr>bots_db = [], running_processes = [], os = ex_os\<rparr>"

text \<open>Alice's bot, as an upload of \<^verbatim>\<open>bot.py\<close> registers it.\<close>

definition ex_bot :: bot_data where
  "ex_bot = \<lparr>ident = ''alice_bot_1700000000'', name = ''bot'', username = ''alice'',
     filepath = ''/tmp/bots/alice_bot_1700000000.py'', file_type = ''py'',
     created_at = ''2023-11-14T22:13:20'', status = ''stopped''\<rparr>"

definition ex_rp :: running_process where
  "ex_rp = \<lparr>pid = 100, process = 100, log_file = ''/tmp/bots/alice_bot_1700000000.log'',
     started_at = ''2023-11-14T22:14:00''\<rparr>"

text \<open>The bot registered and never started; then the bot running as process 100.\<close>

definition ex_uploaded :: state where
  "ex_uploaded =
     \<lparr>bots_db = [(''alice_bot_1700000000'', ex_bot)],
      running_processes = [],
      os = ex_os\<lparr>files := [''/tmp/bots/alice_bot_1700000000.py'' \<mapsto> ''print(1)'']\<rparr>\<rparr>"

definition ex_running :: state where
  "ex_running =
     \<lparr>bots_db = [(''alice_bot_1700000000'', ex_bot)],
      running_processes = [(''alice_bot_1700000000'', ex_rp)],
      os = ex_os\<lparr>files := [''/tmp/bots/alice_bot_1700000000.py'' \<mapsto> ''print(1)'',
                               ''/tmp/bots/alice_bot_1700000000.log'' \<mapsto> ''1''],
                  procs := {100}, next_pid := 101,
                  psutil_sample := (\<lambda>p. if p = 100 then Some (3/2, 81/4) else None)\<rparr>\<rparr>"

text \<open>The running bot on a machine where the process does not exit within five seconds of
  SIGTERM and the script file cannot be removed; and on a machine where the signal cannot
  be sent at all.\<close>

definition ex_stuck :: state where
  "ex_stuck =
     ex_running\<lparr>os := (os ex_running)\<lparr>raises :=
        (\<lambda>c. if c = Wait 100 5
               then Some (TimeoutExpired ''Command timed out after 5 seconds'')
             else if c = Remove ''/tmp/bots/alice_bot_1700000000.py''
               then Some (OtherException ''[Errno 13] Permission denied'')
             else None)\<rparr>\<rparr>"

definition ex_denied :: state where
  "ex_denied =
     ex_running\<lparr>os := (os ex_running)\<lparr>raises :=
        (\<lambda>c. if c = Terminate 100
               then Some (OtherException ''[Errno 1] Operation not permitted'')
             else None)\<rparr>\<rparr>"

text \<open>The running bot on a machine where only the wait fails: the process does not exit
  within five seconds of SIGTERM, and every other call goes through.\<close>

definition ex_hung :: state where
  "ex_hung =
     ex_running\<lparr>os := (os ex_running)\<lparr>raises :=
        (\<lambda>c. if c = Wait 100 5
               then Some (TimeoutExpired ''Command timed out after 5 seconds'')
             else None)\<rparr>\<rparr>"

text \<open>Three uploads by Alice under the bot name \<^verbatim>\<open>bot\<close>: a Python file, a JavaScript
  file, and a Python file whose extension is in capitals.\<close>

definition ex_req :: upload_request where
  "ex_req = \<lparr>files_bot_file = Some (''bot.py'', ''print(1)''),
             form_username = Some ''alice'', form_bot_name = Some ''bot''\<rparr>"

definition ex_req_js :: upload_request where
  "ex_req_js = \<lparr>files_bot_file = Some (''other.js'', ''console.log(2)''),
             form_username = Some ''alice'', form_bot_name = Some ''bot''\<rparr>"

definition ex_req_upper :: upload_request where
  "ex_req_upper = \<lparr>files_bot_file = Some (''bot.PY'', ''print(1)''),
             form_username = Some ''alice'', form_bot_name = Some ''bot''\<rparr>"

text \<open>The state after the first upload on the empty machine, with werkzeug's
  \<^verbatim>\<open>secure_filename\<close> as the identity (which it is on \<^verbatim>\<open>alice_bot_1700000000.py\<close>: letters,
  digits, underscores and an inner dot only). The clock field is the reading of
  \<^verbatim>\<open>int(time.time())\<close> at the request; a second request in the same second reads the
  same value.\<close>

definition ex_first :: state where
  "ex_first = snd (upload_bot (\<lambda>n. n) ex_empty ex_req)"

text \<open>The registered bot with a log of 1500 lines, \<^verbatim>\<open>1\<close> to \<^verbatim>\<open>1500\<close>, each ended
  by a newline.\<close>

definition ex_logged :: state where
  "ex_logged =
     ex_uploaded\<lparr>os := (os ex_uploaded)\<lparr>files :=
        (files (os ex_uploaded))(''/tmp/bots/alice_bot_1700000000.log'' \<mapsto>
           concat (map (\<lambda>l. l @ [CHR 0x0A]) (map string_of_nat [1..<1501])))\<rparr>\<rparr>"

section \<open>Dictionaries and paths\<close>

lemma map_of_update_same: "map_of (AList.update k v al) k = Some v"
  by (simp add: update_conv')

lemma map_of_update_other: "k' \<noteq> k \<Longrightarrow> map_of (AList.update k v al) k' = map_of al k'"
  by (simp add: update_conv')

lemma map_of_delete_same: "map_of (AList.delete k al) k = None"
  by (simp add: delete_conv')

lemma ex_log_path:
  "log_path ''alice_bot_1700000000'' = ''/tmp/bots/alice_bot_1700000000.log''"
  by (simp add: log_path_def os_path_join_def UPLOAD_FOLDER_def)

section \<open>The status route\<close>

lemma get_bot_status_stopped:
  assumes "map_of (bots_db s) bot_id = Some b" and "map_of (running_processes s) bot_id = None"
  shows "get_bot_status s bot_id
     = (JObj [(''success'', JBool True),
              (''bot'', JObj (AList.update ''memory'' (JNum 0)
                       (AList.update ''cpu'' (JNum 0)
                         (AList.update ''status'' (JStr ''stopped'') (bot_dict b)))))], 200)"
  unfolding get_bot_status_def Let_def using assms by simp

lemma get_bot_status_running:
  assumes "map_of (bots_db s) bot_id = Some b" and "map_of (running_processes s) bot_id = Some rp"
  shows "get_bot_status s bot_id
     = (JObj [(''success'', JBool True),
              (''bot'', JObj (AList.update ''started_at'' (JStr (started_at rp))
                          (AList.update ''memory'' (JNum (memory (get_process_stats (os s) (pid rp))))
                            (AList.update ''cpu'' (JNum (cpu (get_process_stats (os s) (pid rp))))
                              (AList.update ''status'' (JStr ''running'') (bot_dict b))))))], 200)"
  unfolding get_bot_status_def Let_def using assms by simp

lemma reported_stopped:
  assumes "map_of (bots_db s) bot_id = Some b" and "map_of (running_processes s) bot_id = None"
  shows "reported s bot_id k =
     map_of (AList.update ''memory'' (JNum 0)
                       (AList.update ''cpu'' (JNum 0)
                         (AList.update ''status'' (JStr ''stopped'') (bot_dict b)))) k"
  unfolding reported_def get_bot_status_stopped [OF assms] by simp

lemma reported_running:
  assumes "map_of (bots_db s) bot_id = Some b" and "map_of (running_processes s) bot_id = Some rp"
  shows "reported s bot_id k =
     map_of (AList.update ''started_at'' (JStr (started_at rp))
                          (AList.update ''memory'' (JNum (memory (get_process_stats (os s) (pid rp))))
                            (AList.update ''cpu'' (JNum (cpu (get_process_stats (os s) (pid rp))))
                              (AList.update ''status'' (JStr ''running'') (bot_dict b))))) k"
  unfolding reported_def get_bot_status_running [OF assms] by simp

lemma get_bot_status_ok:
  assumes "map_of (bots_db s) bot_id = Some b"
  shows "snd (get_bot_status s bot_id) = 200"
    and "jget (fst (get_bot_status s bot_id)) ''success'' = Some (JBool True)"
  using assms by (simp_all add: get_bot_status_def Let_def)

lemma reported_status_stopped:
  assumes "map_of (bots_db s) bot_id = Some b" and "map_of (running_processes s) bot_id = None"
  shows "reported s bot_id ''status'' = Some (JStr ''stopped'')"
  unfolding reported_stopped [OF assms]
  by (simp add: map_of_update_same map_of_update_other)

lemma reported_status_running:
  assumes "map_of (bots_db s) bot_id = Some b" and "map_of (running_processes s) bot_id = Some rp"
  shows "reported s bot_id ''status'' = Some (JStr ''running'')"
  unfolding reported_running [OF assms]
  by (simp add: map_of_update_same map_of_update_other)

text \<open>
  Claim C1. For a bot id of the registry, the status route answers 200 with
  \<^verbatim>\<open>success\<close> true, and the \<^verbatim>\<open>bot\<close> object it carries says \<^verbatim>\<open>running\<close> exactly when
  the process table has an entry for the id. With an entry, \<^verbatim>\<open>cpu\<close> and \<^verbatim>\<open>memory\<close>
  are the readings of \<open>get_process_stats\<close> for the entry's pid and \<^verbatim>\<open>started_at\<close> is
  the entry's; with none, the status is \<^verbatim>\<open>stopped\<close> and both readings are 0. Every
  other key is the stored record's.
\<close>

theorem get_bot_status_reflects_process_table:
  assumes "map_of (bots_db s) bot_id = Some b"
  shows "snd (get_bot_status s bot_id) = 200 \<and>
      jget (fst (get_bot_status s bot_id)) ''success'' = Some (JBool True) \<and>
      (reported s bot_id ''status'' = Some (JStr ''running'')
         \<longleftrightarrow> map_of (running_processes s) bot_id \<noteq> None) \<and>
      (case map_of (running_processes s) bot_id of
         Some rp \<Rightarrow>
           reported s bot_id ''status'' = Some (JStr ''running'') \<and>
           reported s bot_id ''cpu'' = Some (JNum (cpu (get_process_stats (os s) (pid rp)))) \<and>
           reported s bot_id ''memory'' = Some (JNum (memory (get_process_stats (os s) (pid rp)))) \<and>
           reported s bot_id ''started_at'' = Some (JStr (started_at rp))
       | None \<Rightarrow>
           reported s bot_id ''status'' = Some (JStr ''stopped'') \<and>
           reported s bot_id ''cpu'' = Some (JNum 0) \<and>
           reported s bot_id ''memory'' = Some (JNum 0)) \<and>
      (\<forall>k. k \<notin> {''status'', ''cpu'', ''memory'', ''started_at''}
         \<longrightarrow> reported s bot_id k = map_of (bot_dict b) k)"
proof (cases "map_of (running_processes s) bot_id")
  case None
  note rep = reported_stopped [OF assms None]
  have 2: "reported s bot_id ''status'' = Some (JStr ''stopped'')"
    unfolding rep by (simp add: map_of_update_same map_of_update_other)
  have 3: "reported s bot_id ''cpu'' = Some (JNum 0)"
    unfolding rep by (simp add: map_of_update_same map_of_update_other)
  have 4: "reported s bot_id ''memory'' = Some (JNum 0)"
    unfolding rep by (simp add: map_of_update_same)
  have 5: "\<forall>k. k \<notin> {''status'', ''cpu'', ''memory'', ''started_at''}
         \<longrightarrow> reported s bot_id k = map_of (bot_dict b) k"
    unfolding rep by (simp add: map_of_update_other)
  show ?thesis
    unfolding None option.case using get_bot_status_ok [OF assms] 2 3 4 5 by simp
next
  case (Some rp)
  note rep = reported_running [OF assms Some]
  have 2: "reported s bot_id ''status'' = Some (JStr ''running'')"
    unfolding rep by (simp add: map_of_update_same map_of_update_other)
  have 3: "reported s bot_id ''cpu'' = Some (JNum (cpu (get_process_stats (os s) (pid rp))))"
    unfolding rep by (simp add: map_of_update_same map_of_update_other)
  have 4: "reported s bot_id ''memory'' = Some (JNum (memory (get_process_stats (os s) (pid rp))))"
    unfolding rep by (simp add: map_of_update_same map_of_update_other)
  have 5: "reported s bot_id ''started_at'' = Some (JStr (started_at rp))"
    unfolding rep by (simp add: map_of_update_same)
  have 6: "\<forall>k. k \<notin> {''status'', ''cpu'', ''memory'', ''started_at''}
         \<longrightarrow> reported s bot_id k = map_of (bot_dict b) k"
    unfolding rep by (simp add: map_of_update_other)
  show ?thesis
    unfolding Some option.case using get_bot_status_ok [OF assms] 2 3 4 5 6 by simp
qed

text \<open>The same at Alice's running bot, whose process psutil measures at 1.5 percent of
  a CPU and 20.25 MB, and at her bot before it is started.\<close>

theorem get_bot_status_reflects_process_table_witness:
  "map_of (bots_db ex_running) ''alice_bot_1700000000'' = Some ex_bot \<and>
   snd (get_bot_status ex_running ''alice_bot_1700000000'') = 200 \<and>
   reported ex_running ''alice_bot_1700000000'' ''status'' = Some (JStr ''running'') \<and>
   reported ex_running ''alice_bot_1700000000'' ''cpu'' = Some (JNum (3/2)) \<and>
   reported ex_running ''alice_bot_1700000000'' ''memory'' = Some (JNum (81/4)) \<and>
   reported ex_running ''alice_bot_1700000000'' ''started_at''
     = Some (JStr ''2023-11-14T22:14:00'') \<and>
   map_of (bots_db ex_uploaded) ''alice_bot_1700000000'' = Some ex_bot \<and>
   reported ex_uploaded ''alice_bot_1700000000'' ''status'' = Some (JStr ''stopped'') \<and>
   reported ex_uploaded ''alice_bot_1700000000'' ''cpu'' = Some (JNum 0) \<and>
   reported ex_uploaded ''alice_bot_1700000000'' ''memory'' = Some (JNum 0)"
proof -
  have h: "map_of (bots_db ex_running) ''alice_bot_1700000000'' = Some ex_bot"
    by (simp add: ex_running_def)
  have r: "map_of (running_processes ex_running) ''alice_bot_1700000000'' = Some ex_rp"
    by (simp add: ex_running_def)
  have st: "get_process_stats (os ex_running) (pid ex_rp) = \<lparr>cpu = 3/2, memory = 81/4\<rparr>"
    by (simp add: get_process_stats_def ex_running_def ex_rp_def ex_os_def)
  have sa: "started_at ex_rp = ''2023-11-14T22:14:00''"
    by (simp add: ex_rp_def)
  have h': "map_of (bots_db ex_uploaded) ''alice_bot_1700000000'' = Some ex_bot"
    by (simp add: ex_uploaded_def)
  have r': "map_of (running_processes ex_uploaded) ''alice_bot_1700000000'' = None"
    by (simp add: ex_uploaded_def)
  have a: "snd (get_bot_status ex_running ''alice_bot_1700000000'') = 200 \<and>
   reported ex_running ''alice_bot_1700000000'' ''status'' = Some (JStr ''running'') \<and>
   reported ex_running ''alice_bot_1700000000'' ''cpu'' = Some (JNum (3/2)) \<and>
   reported ex_running ''alice_bot_1700000000'' ''memory'' = Some (JNum (81/4)) \<and>
   reported ex_running ''alice_bot_1700000000'' ''started_at''
     = Some (JStr ''2023-11-14T22:14:00'')"
    using get_bot_status_reflects_process_table [OF h]
    unfolding r option.case st sa by simp
  have b: "reported ex_uploaded ''alice_bot_1700000000'' ''status'' = Some (JStr ''stopped'') \<and>
   reported ex_uploaded ''alice_bot_1700000000'' ''cpu'' = Some (JNum 0) \<and>
   reported ex_uploaded ''alice_bot_1700000000'' ''memory'' = Some (JNum 0)"
    using get_bot_status_reflects_process_table [OF h']
    unfolding r' option.case by simp
  show ?thesis
    using h a h' b by simp
qed

section \<open>The logs route\<close>

text \<open>
  Claim C9. For a registered bot with no file at its log path (it was never started),
  the logs route answers 200 with \<^verbatim>\<open>success\<close> true and the text
  \<^verbatim>\<open>No logs available yet\<close>: neither an error answer nor an exception.
\<close>

theorem get_bot_logs_before_first_start:
  assumes "map_of (bots_db s) bot_id = Some b"
    and "files (os s) (log_path bot_id) = None"
  shows "get_bot_logs s bot_id
           = (JObj [(''success'', JBool True), (''logs'', JStr ''No logs available yet'')], 200)"
  using assms by (simp add: get_bot_logs_def os_path_exists_def)

theorem get_bot_logs_before_first_start_witness:
  "map_of (bots_db ex_uploaded) ''alice_bot_1700000000'' = Some ex_bot \<and>
   files (os ex_uploaded) (log_path ''alice_bot_1700000000'') = None \<and>
   get_bot_logs ex_uploaded ''alice_bot_1700000000''
     = (JObj [(''success'', JBool True), (''logs'', JStr ''No logs available yet'')], 200)"
proof -
  have h: "map_of (bots_db ex_uploaded) ''alice_bot_1700000000'' = Some ex_bot"
    by (simp add: ex_uploaded_def)
  have f: "files (os ex_uploaded) (log_path ''alice_bot_1700000000'') = None"
    unfolding ex_log_path by (simp add: ex_uploaded_def ex_os_def)
  show ?thesis
    using h f get_bot_logs_before_first_start [OF h f] by simp
qed

section \<open>Stopping a bot\<close>

text \<open>The three ways \<^verbatim>\<open>terminate()\<close> followed by \<^verbatim>\<open>wait(timeout=5)\<close> can end, read off
  the oracle, and what \<^verbatim>\<open>kill()\<close> does when it is delivered.\<close>

lemma terminate_then_wait_exits:
  assumes "raises w (Terminate p) = None" and "raises w (Wait p 5) = None"
  shows "terminate_then_wait p w
           = (Inr (), w\<lparr>procs := procs w - {p}, trace := trace w @ [Terminate p, Wait p 5]\<rparr>)"
  using assms by (simp add: terminate_then_wait_def terminate_def wait_def invoke_def)

lemma terminate_then_wait_wait_raises:
  assumes "raises w (Terminate p) = None" and "raises w (Wait p 5) = Some e"
  shows "terminate_then_wait p w = (Inl e, w\<lparr>trace := trace w @ [Terminate p, Wait p 5]\<rparr>)"
  using assms by (simp add: terminate_then_wait_def terminate_def wait_def invoke_def)

lemma terminate_then_wait_terminate_raises:
  assumes "raises w (Terminate p) = Some e"
  shows "terminate_then_wait p w = (Inl e, w\<lparr>trace := trace w @ [Terminate p]\<rparr>)"
  using assms by (simp add: terminate_then_wait_def terminate_def invoke_def)

lemma kill_delivered:
  assumes "raises w (Kill p) = None"
  shows "kill p w = (Inr (), w\<lparr>trace := trace w @ [Kill p]\<rparr>)"
  using assms by (simp add: kill_def invoke_def)

text \<open>The three paths of the stop route for a bot of the process table.\<close>

lemma stop_bot_graceful:
  assumes "map_of (running_processes s) bot_id = Some rp"
    and "raises (os s) (Terminate (process rp)) = None"
    and "raises (os s) (Wait (process rp) 5) = None"
  shows "stop_bot s bot_id =
     (Inr (JObj [(''success'', JBool True), (''message'', JStr ''Bot stopped successfully'')], 200),
      s\<lparr>running_processes := AList.delete bot_id (running_processes s),
        os := (os s)\<lparr>procs := procs (os s) - {process rp},
                     trace := trace (os s) @ [Terminate (process rp), Wait (process rp) 5]\<rparr>\<rparr>)"
  unfolding stop_bot_def using assms(1) terminate_then_wait_exits [OF assms(2,3)] by simp

lemma stop_bot_forced:
  assumes "map_of (running_processes s) bot_id = Some rp"
    and "raises (os s) (Terminate (process rp)) = None"
    and "raises (os s) (Wait (process rp) 5) = Some (TimeoutExpired m)"
    and "raises (os s) (Kill (process rp)) = None"
  shows "stop_bot s bot_id =
     (Inr (JObj [(''success'', JBool True), (''message'', JStr ''Bot force-stopped'')], 200),
      s\<lparr>running_processes := AList.delete bot_id (running_processes s),
        os := (os s)\<lparr>trace := trace (os s)
                        @ [Terminate (process rp), Wait (process rp) 5, Kill (process rp)]\<rparr>\<rparr>)"
  unfolding stop_bot_def using assms(1,4) terminate_then_wait_wait_raises [OF assms(2,3)]
  by (simp add: kill_def invoke_def)

lemma stop_bot_failed:
  assumes "map_of (running_processes s) bot_id = Some rp"
    and "raises (os s) (Terminate (process rp)) = Some (OtherException m) \<or>
         raises (os s) (Terminate (process rp)) = None \<and>
         raises (os s) (Wait (process rp) 5) = Some (OtherException m)"
  shows "fst (stop_bot s bot_id) = Inr (failure (''Failed to stop bot: '' @ m), 500) \<and>
         running_processes (snd (stop_bot s bot_id)) = running_processes s \<and>
         bots_db (snd (stop_bot s bot_id)) = bots_db s"
  using assms(2)
proof
  assume "raises (os s) (Terminate (process rp)) = Some (OtherException m)"
  from terminate_then_wait_terminate_raises [OF this] assms(1)
  show ?thesis unfolding stop_bot_def by simp
next
  assume "raises (os s) (Terminate (process rp)) = None \<and>
         raises (os s) (Wait (process rp) 5) = Some (OtherException m)"
  then have "terminate_then_wait (process rp) (os s)
     = (Inl (OtherException m), (os s)\<lparr>trace := trace (os s) @ [Terminate (process rp), Wait (process rp) 5]\<rparr>)"
    by (simp add: terminate_then_wait_wait_raises)
  with assms(1) show ?thesis unfolding stop_bot_def by simp
qed

section \<open>Deleting a bot\<close>

lemma stop_if_running_keeps:
  "bots_db (stop_if_running s bot_id) = bots_db s"
  "files (os (stop_if_running s bot_id)) = files (os s)"
  "raises (os (stop_if_running s bot_id)) = raises (os s)"
  by (simp_all add: stop_if_running_def terminate_then_wait_def terminate_def wait_def invoke_def
        split: option.splits prod.splits sum.splits)

lemma stop_if_running_not_running:
  "map_of (running_processes s) bot_id = None \<Longrightarrow> stop_if_running s bot_id = s"
  by (simp add: stop_if_running_def)

lemma stop_if_running_graceful:
  assumes "map_of (running_processes s) bot_id = Some rp"
    and "raises (os s) (Terminate (process rp)) = None"
    and "raises (os s) (Wait (process rp) 5) = None"
  shows "stop_if_running s bot_id =
      s\<lparr>running_processes := AList.delete bot_id (running_processes s),
        os := (os s)\<lparr>procs := procs (os s) - {process rp},
                     trace := trace (os s) @ [Terminate (process rp), Wait (process rp) 5]\<rparr>\<rparr>"
  unfolding stop_if_running_def using assms(1) terminate_then_wait_exits [OF assms(2,3)] by simp

lemma stop_if_running_swallows:
  assumes "map_of (running_processes s) bot_id = Some rp"
    and "fst (terminate_then_wait (process rp) (os s)) = Inl e"
  shows "running_processes (stop_if_running s bot_id) = running_processes s"
    and "procs (os (stop_if_running s bot_id)) = procs (os s)"
  using assms
  by (simp_all add: stop_if_running_def terminate_then_wait_def terminate_def wait_def invoke_def
        split: option.splits prod.splits sum.splits)

lemma delete_files_keeps:
  "procs (delete_files b bot_id w) = procs w"
  by (simp add: delete_files_def os_remove_def os_path_exists_def invoke_def
        split: option.splits prod.splits sum.splits)

lemma delete_files_removes:
  assumes "raises w (Remove (filepath b)) = None" and "raises w (Remove (log_path bot_id)) = None"
  shows "files (delete_files b bot_id w) (filepath b) = None"
    and "files (delete_files b bot_id w) (log_path bot_id) = None"
  using assms
  by (auto simp add: delete_files_def os_remove_def os_path_exists_def invoke_def
        split: option.splits prod.splits sum.splits)

lemma delete_bot_registered:
  assumes "map_of (bots_db s) bot_id = Some b"
  shows "delete_bot s bot_id =
     (Inr (JObj [(''success'', JBool True), (''message'', JStr ''Bot deleted successfully'')], 200),
      (stop_if_running s bot_id)
        \<lparr>bots_db := AList.delete bot_id (bots_db s),
         os := delete_files b bot_id (os (stop_if_running s bot_id))\<rparr>)"
  using assms by (simp add: delete_bot_def Let_def stop_if_running_keeps)

text \<open>When removing the script raises, the bare \<^verbatim>\<open>except\<close> ends the block: no file
  is removed, the log is not even tried.\<close>

lemma delete_files_script_locked:
  assumes "files w (filepath b) \<noteq> None" and "raises w (Remove (filepath b)) = Some e"
  shows "files (delete_files b bot_id w) = files w"
  using assms by (simp add: delete_files_def os_remove_def os_path_exists_def invoke_def)

section \<open>Facts about the example states\<close>

lemma ex_running_facts:
  "map_of (bots_db ex_running) ''alice_bot_1700000000'' = Some ex_bot"
  "map_of (running_processes ex_running) ''alice_bot_1700000000'' = Some ex_rp"
  "raises (os ex_running) c = None"
  "trace (os ex_running) = []"
  by (simp_all add: ex_running_def ex_os_def)

lemma ex_record_facts:
  "process ex_rp = 100"
  "filepath ex_bot = ''/tmp/bots/alice_bot_1700000000.py''"
  by (simp_all add: ex_rp_def ex_bot_def)

lemma ex_stuck_facts:
  "map_of (bots_db ex_stuck) ''alice_bot_1700000000'' = Some ex_bot"
  "map_of (running_processes ex_stuck) ''alice_bot_1700000000'' = Some ex_rp"
  "raises (os ex_stuck) (Terminate 100) = None"
  "raises (os ex_stuck) (Wait 100 5) = Some (TimeoutExpired ''Command timed out after 5 seconds'')"
  "raises (os ex_stuck) (Kill 100) = None"
  "raises (os ex_stuck) (Remove ''/tmp/bots/alice_bot_1700000000.py'')
     = Some (OtherException ''[Errno 13] Permission denied'')"
  "files (os ex_stuck) ''/tmp/bots/alice_bot_1700000000.py'' = Some ''print(1)''"
  "files (os ex_stuck) ''/tmp/bots/alice_bot_1700000000.log'' = Some ''1''"
  "procs (os ex_stuck) = {100}"
  "trace (os ex_stuck) = []"
  by (simp_all add: ex_stuck_def ex_running_def ex_os_def)

lemma ex_denied_facts:
  "map_of (bots_db ex_denied) ''alice_bot_1700000000'' = Some ex_bot"
  "map_of (running_processes ex_denied) ''alice_bot_1700000000'' = Some ex_rp"
  "raises (os ex_denied) (Terminate 100)
     = Some (OtherException ''[Errno 1] Operation not permitted'')"
  "procs (os ex_denied) = {100}"
  by (simp_all add: ex_denied_def ex_running_def ex_os_def)

text \<open>
  Deleting the bot whose process ignores SIGTERM and whose script cannot be removed: the
  route answers success and the registry entry is gone, but the entry of the process
  table, the process and both files are still there. The stop route kills and removes
  the entry on the same timeout (\<open>stop_bot_forced\<close>); delete has no such branch.
\<close>

lemma delete_bot_ex_stuck:
  "fst (delete_bot ex_stuck ''alice_bot_1700000000'')
     = Inr (JObj [(''success'', JBool True), (''message'', JStr ''Bot deleted successfully'')], 200)"
  "map_of (bots_db (snd (delete_bot ex_stuck ''alice_bot_1700000000''))) ''alice_bot_1700000000'' = None"
  "map_of (running_processes (snd (delete_bot ex_stuck ''alice_bot_1700000000'')))
     ''alice_bot_1700000000'' = Some ex_rp"
  "procs (os (snd (delete_bot ex_stuck ''alice_bot_1700000000''))) = {100}"
  "files (os (snd (delete_bot ex_stuck ''alice_bot_1700000000'')))
     ''/tmp/bots/alice_bot_1700000000.py'' = Some ''print(1)''"
  "files (os (snd (delete_bot ex_stuck ''alice_bot_1700000000'')))
     ''/tmp/bots/alice_bot_1700000000.log'' = Some ''1''"
proof -
  let ?id = "''alice_bot_1700000000''"
  note d = delete_bot_registered [OF ex_stuck_facts(1)]
  have t: "fst (terminate_then_wait (process ex_rp) (os ex_stuck))
             = Inl (TimeoutExpired ''Command timed out after 5 seconds'')"
    unfolding ex_record_facts
    by (simp add: terminate_then_wait_wait_raises [OF ex_stuck_facts(3) ex_stuck_facts(4)])
  note sw = stop_if_running_swallows [OF ex_stuck_facts(2) t]
  have fl: "files (delete_files ex_bot ?id (os (stop_if_running ex_stuck ?id))) = files (os ex_stuck)"
    using delete_files_script_locked [of "os (stop_if_running ex_stuck ?id)" ex_bot _ ?id]
    unfolding stop_if_running_keeps ex_record_facts
    by (simp add: ex_stuck_facts)
  show "fst (delete_bot ex_stuck ?id)
     = Inr (JObj [(''success'', JBool True), (''message'', JStr ''Bot deleted successfully'')], 200)"
    unfolding d by simp
  show "map_of (bots_db (snd (delete_bot ex_stuck ?id))) ?id = None"
    unfolding d by (simp add: map_of_delete_same)
  show "map_of (running_processes (snd (delete_bot ex_stuck ?id))) ?id = Some ex_rp"
    unfolding d by (simp add: sw ex_stuck_facts)
  show "procs (os (snd (delete_bot ex_stuck ?id))) = {100}"
    unfolding d by (simp add: delete_files_keeps sw ex_stuck_facts)
  show "files (os (snd (delete_bot ex_stuck ?id))) ''/tmp/bots/alice_bot_1700000000.py'' = Some ''print(1)''"
    unfolding d by (simp add: fl ex_stuck_facts)
  show "files (os (snd (delete_bot ex_stuck ?id))) ''/tmp/bots/alice_bot_1700000000.log'' = Some ''1''"
    unfolding d by (simp add: fl ex_stuck_facts)
qed

section \<open>Stop: what is removed, and when\<close>

text \<open>
  Against "in all cases the entry is removed": when \<^verbatim>\<open>terminate()\<close> raises an exception
  other than \<^verbatim>\<open>TimeoutExpired\<close>, the stop route answers 500, the entry stays in the
  process table and the status route goes on saying \<^verbatim>\<open>running\<close>.
\<close>

theorem stop_bot_keeps_entry_counterexample:
  "map_of (running_processes ex_denied) ''alice_bot_1700000000'' = Some ex_rp \<and>
   fst (stop_bot ex_denied ''alice_bot_1700000000'')
     = Inr (failure ''Failed to stop bot: [Errno 1] Operation not permitted'', 500) \<and>
   map_of (running_processes (snd (stop_bot ex_denied ''alice_bot_1700000000'')))
     ''alice_bot_1700000000'' = Some ex_rp \<and>
   reported (snd (stop_bot ex_denied ''alice_bot_1700000000'')) ''alice_bot_1700000000'' ''status''
     = Some (JStr ''running'')"
proof -
  let ?id = "''alice_bot_1700000000''"
  have f: "raises (os ex_denied) (Terminate (process ex_rp))
             = Some (OtherException ''[Errno 1] Operation not permitted'')"
    unfolding ex_record_facts by (rule ex_denied_facts)
  note sf = stop_bot_failed [OF ex_denied_facts(2) disjI1, OF f]
  have r: "map_of (running_processes (snd (stop_bot ex_denied ?id))) ?id = Some ex_rp"
    using sf by (simp add: ex_denied_facts)
  have b: "map_of (bots_db (snd (stop_bot ex_denied ?id))) ?id = Some ex_bot"
    using sf by (simp add: ex_denied_facts)
  show ?thesis
    using sf r reported_status_running [OF b r] by (simp add: ex_denied_facts)
qed

text \<open>
  Claim C2, amended. For a bot id with an entry in the process table, the stop route
  calls \<^verbatim>\<open>terminate()\<close> and then \<^verbatim>\<open>wait(timeout=5)\<close> on the entry's process.

  \<^item> If neither raises, it answers \<^verbatim>\<open>Bot stopped successfully\<close>; those two calls are all
    it did, the entry is removed, and a registered bot reports \<^verbatim>\<open>stopped\<close> afterwards.
  \<^item> If the wait raises \<^verbatim>\<open>TimeoutExpired\<close> and \<^verbatim>\<open>kill()\<close> does not raise, it answers
    \<^verbatim>\<open>Bot force-stopped\<close>; the calls are terminate, wait, kill (and no second wait), the
    entry is removed, and a registered bot reports \<^verbatim>\<open>stopped\<close> afterwards.
  \<^item> If terminate or wait raises any other exception, it answers 500 with
    \<^verbatim>\<open>Failed to stop bot\<close> and leaves both tables as they were.
\<close>

theorem stop_bot_removes_entry_unless_failed:
  assumes "map_of (running_processes s) bot_id = Some rp"
  shows
    "(raises (os s) (Terminate (process rp)) = None \<and> raises (os s) (Wait (process rp) 5) = None
        \<longrightarrow>
        fst (stop_bot s bot_id)
          = Inr (JObj [(''success'', JBool True),
                       (''message'', JStr ''Bot stopped successfully'')], 200) \<and>
        trace (os (snd (stop_bot s bot_id)))
          = trace (os s) @ [Terminate (process rp), Wait (process rp) 5] \<and>
        map_of (running_processes (snd (stop_bot s bot_id))) bot_id = None \<and>
        (map_of (bots_db s) bot_id \<noteq> None
           \<longrightarrow> reported (snd (stop_bot s bot_id)) bot_id ''status'' = Some (JStr ''stopped''))) \<and>
     (\<forall>m. raises (os s) (Terminate (process rp)) = None \<and>
          raises (os s) (Wait (process rp) 5) = Some (TimeoutExpired m) \<and>
          raises (os s) (Kill (process rp)) = None
        \<longrightarrow>
        fst (stop_bot s bot_id)
          = Inr (JObj [(''success'', JBool True), (''message'', JStr ''Bot force-stopped'')], 200) \<and>
        trace (os (snd (stop_bot s bot_id)))
          = trace (os s) @ [Terminate (process rp), Wait (process rp) 5, Kill (process rp)] \<and>
        map_of (running_processes (snd (stop_bot s bot_id))) bot_id = None \<and>
        (map_of (bots_db s) bot_id \<noteq> None
           \<longrightarrow> reported (snd (stop_bot s bot_id)) bot_id ''status'' = Some (JStr ''stopped''))) \<and>
     (\<forall>m. raises (os s) (Terminate (process rp)) = Some (OtherException m) \<or>
          raises (os s) (Terminate (process rp)) = None \<and>
          raises (os s) (Wait (process rp) 5) = Some (OtherException m)
        \<longrightarrow>
        fst (stop_bot s bot_id) = Inr (failure (''Failed to stop bot: '' @ m), 500) \<and>
        running_processes (snd (stop_bot s bot_id)) = running_processes s \<and>
        bots_db (snd (stop_bot s bot_id)) = bots_db s)"
proof (intro conjI allI impI)
  assume h: "raises (os s) (Terminate (process rp)) = None \<and> raises (os s) (Wait (process rp) 5) = None"
  note g = stop_bot_graceful [OF assms conjunct1 [OF h] conjunct2 [OF h]]
  show "fst (stop_bot s bot_id)
          = Inr (JObj [(''success'', JBool True),
                       (''message'', JStr ''Bot stopped successfully'')], 200)"
    unfolding g by simp
  show "trace (os (snd (stop_bot s bot_id)))
          = trace (os s) @ [Terminate (process rp), Wait (process rp) 5]"
    unfolding g by simp
  show n: "map_of (running_processes (snd (stop_bot s bot_id))) bot_id = None"
    unfolding g by (simp add: map_of_delete_same)
  assume "map_of (bots_db s) bot_id \<noteq> None"
  then obtain b where "map_of (bots_db s) bot_id = Some b" by (cases "map_of (bots_db s) bot_id") simp_all
  then have "map_of (bots_db (snd (stop_bot s bot_id))) bot_id = Some b"
    unfolding g by simp
  then show "reported (snd (stop_bot s bot_id)) bot_id ''status'' = Some (JStr ''stopped'')"
    using n by (rule reported_status_stopped)
next
  fix m
  assume h: "raises (os s) (Terminate (process rp)) = None \<and>
          raises (os s) (Wait (process rp) 5) = Some (TimeoutExpired m) \<and>
          raises (os s) (Kill (process rp)) = None"
  note g = stop_bot_forced [OF assms conjunct1 [OF h] conjunct1 [OF conjunct2 [OF h]]
             conjunct2 [OF conjunct2 [OF h]]]
  show "fst (stop_bot s bot_id)
          = Inr (JObj [(''success'', JBool True), (''message'', JStr ''Bot force-stopped'')], 200)"
    unfolding g by simp
  show "trace (os (snd (stop_bot s bot_id)))
          = trace (os s) @ [Terminate (process rp), Wait (process rp) 5, Kill (process rp)]"
    unfolding g by simp
  show n: "map_of (running_processes (snd (stop_bot s bot_id))) bot_id = None"
    unfolding g by (simp add: map_of_delete_same)
  assume "map_of (bots_db s) bot_id \<noteq> None"
  then obtain b where "map_of (bots_db s) bot_id = Some b" by (cases "map_of (bots_db s) bot_id") simp_all
  then have "map_of (bots_db (snd (stop_bot s bot_id))) bot_id = Some b"
    unfolding g by simp
  then show "reported (snd (stop_bot s bot_id)) bot_id ''status'' = Some (JStr ''stopped'')"
    using n by (rule reported_status_stopped)
next
  fix m
  assume h: "raises (os s) (Terminate (process rp)) = Some (OtherException m) \<or>
          raises (os s) (Terminate (process rp)) = None \<and>
          raises (os s) (Wait (process rp) 5) = Some (OtherException m)"
  note f = stop_bot_failed [OF assms h]
  show "fst (stop_bot s bot_id) = Inr (failure (''Failed to stop bot: '' @ m), 500)"
    using f by simp
  show "running_processes (snd (stop_bot s bot_id)) = running_processes s"
    using f by simp
  show "bots_db (snd (stop_bot s bot_id)) = bots_db s"
    using f by simp
qed

text \<open>The three cases at Alice's bot: the process exits on SIGTERM, it ignores SIGTERM,
  and the signal is refused.\<close>

theorem stop_bot_removes_entry_unless_failed_witness:
  "map_of (running_processes ex_running) ''alice_bot_1700000000'' = Some ex_rp \<and>
   fst (stop_bot ex_running ''alice_bot_1700000000'')
     = Inr (JObj [(''success'', JBool True), (''message'', JStr ''Bot stopped successfully'')], 200) \<and>
   trace (os (snd (stop_bot ex_running ''alice_bot_1700000000''))) = [Terminate 100, Wait 100 5] \<and>
   map_of (running_processes (snd (stop_bot ex_running ''alice_bot_1700000000'')))
     ''alice_bot_1700000000'' = None \<and>
   reported (snd (stop_bot ex_running ''alice_bot_1700000000'')) ''alice_bot_1700000000'' ''status''
     = Some (JStr ''stopped'') \<and>
   map_of (running_processes ex_stuck) ''alice_bot_1700000000'' = Some ex_rp \<and>
   fst (stop_bot ex_stuck ''alice_bot_1700000000'')
     = Inr (JObj [(''success'', JBool True), (''message'', JStr ''Bot force-stopped'')], 200) \<and>
   trace (os (snd (stop_bot ex_stuck ''alice_bot_1700000000'')))
     = [Terminate 100, Wait 100 5, Kill 100] \<and>
   map_of (running_processes (snd (stop_bot ex_stuck ''alice_bot_1700000000'')))
     ''alice_bot_1700000000'' = None \<and>
   reported (snd (stop_bot ex_stuck ''alice_bot_1700000000'')) ''alice_bot_1700000000'' ''status''
     = Some (JStr ''stopped'') \<and>
   map_of (running_processes ex_denied) ''alice_bot_1700000000'' = Some ex_rp \<and>
   running_processes (snd (stop_bot ex_denied ''alice_bot_1700000000''))
     = running_processes ex_denied"
proof -
  note a = stop_bot_removes_entry_unless_failed [OF ex_running_facts(2), unfolded ex_record_facts]
  note b = stop_bot_removes_entry_unless_failed [OF ex_stuck_facts(2), unfolded ex_record_facts]
  note c = stop_bot_removes_entry_unless_failed [OF ex_denied_facts(2), unfolded ex_record_facts]
  from a have a': "fst (stop_bot ex_running ''alice_bot_1700000000'')
     = Inr (JObj [(''success'', JBool True), (''message'', JStr ''Bot stopped successfully'')], 200) \<and>
   trace (os (snd (stop_bot ex_running ''alice_bot_1700000000''))) = [Terminate 100, Wait 100 5] \<and>
   map_of (running_processes (snd (stop_bot ex_running ''alice_bot_1700000000'')))
     ''alice_bot_1700000000'' = None \<and>
   reported (snd (stop_bot ex_running ''alice_bot_1700000000'')) ''alice_bot_1700000000'' ''status''
     = Some (JStr ''stopped'')"
    by (simp add: ex_running_facts)
  from b have b': "fst (stop_bot ex_stuck ''alice_bot_1700000000'')
     = Inr (JObj [(''success'', JBool True), (''message'', JStr ''Bot force-stopped'')], 200) \<and>
   trace (os (snd (stop_bot ex_stuck ''alice_bot_1700000000'')))
     = [Terminate 100, Wait 100 5, Kill 100] \<and>
   map_of (running_processes (snd (stop_bot ex_stuck ''alice_bot_1700000000'')))
     ''alice_bot_1700000000'' = None \<and>
   reported (snd (stop_bot ex_stuck ''alice_bot_1700000000'')) ''alice_bot_1700000000'' ''status''
     = Some (JStr ''stopped'')"
    by (simp add: ex_stuck_facts)
  from c have c': "running_processes (snd (stop_bot ex_denied ''alice_bot_1700000000''))
     = running_processes ex_denied"
    by (simp add: ex_denied_facts)
  show ?thesis
    using a' b' c' ex_running_facts(2) ex_stuck_facts(2) ex_denied_facts(2) by simp
qed

section \<open>Delete: what is left behind\<close>

lemma delete_files_trace:
  "set (trace (delete_files b bot_id w))
     \<subseteq> set (trace w) \<union> {Remove (filepath b), Remove (log_path bot_id)}"
  by (auto simp add: delete_files_def os_remove_def os_path_exists_def invoke_def
        split: option.splits prod.splits sum.splits if_splits)

lemma ex_hung_facts:
  "map_of (bots_db ex_hung) ''alice_bot_1700000000'' = Some ex_bot"
  "map_of (running_processes ex_hung) ''alice_bot_1700000000'' = Some ex_rp"
  "raises (os ex_hung) (Terminate 100) = None"
  "raises (os ex_hung) (Wait 100 5) = Some (TimeoutExpired ''Command timed out after 5 seconds'')"
  "raises (os ex_hung) (Remove p) = None"
  "procs (os ex_hung) = {100}"
  "trace (os ex_hung) = []"
  by (simp_all add: ex_hung_def ex_running_def ex_os_def)

text \<open>
  Claim C3, at an input where the code departs from it. Alice's bot is registered and
  running, and its process does not exit within five seconds of SIGTERM; nothing else
  fails. The delete route answers success, the registry entry is gone and both files are
  removed, but the bare \<^verbatim>\<open>except\<close> has skipped \<^verbatim>\<open>del running_processes[bot_id]\<close>: the
  entry of the process table is still there and so is the process, to which no kill was
  sent. The claim asks for the entry to be removed even when the termination times out,
  as the stop route does on the same timeout.
\<close>

theorem delete_bot_on_timeout_keeps_process_entry:
  "map_of (bots_db ex_hung) ''alice_bot_1700000000'' = Some ex_bot \<and>
   map_of (running_processes ex_hung) ''alice_bot_1700000000'' = Some ex_rp \<and>
   fst (delete_bot ex_hung ''alice_bot_1700000000'')
     = Inr (JObj [(''success'', JBool True), (''message'', JStr ''Bot deleted successfully'')], 200) \<and>
   map_of (bots_db (snd (delete_bot ex_hung ''alice_bot_1700000000''))) ''alice_bot_1700000000''
     = None \<and>
   files (os (snd (delete_bot ex_hung ''alice_bot_1700000000''))) (filepath ex_bot) = None \<and>
   files (os (snd (delete_bot ex_hung ''alice_bot_1700000000'')))
     (log_path ''alice_bot_1700000000'') = None \<and>
   map_of (running_processes (snd (delete_bot ex_hung ''alice_bot_1700000000'')))
     ''alice_bot_1700000000'' = Some ex_rp \<and>
   100 \<in> procs (os (snd (delete_bot ex_hung ''alice_bot_1700000000''))) \<and>
   Kill 100 \<notin> set (trace (os (snd (delete_bot ex_hung ''alice_bot_1700000000''))))"
proof -
  let ?id = "''alice_bot_1700000000''"
  note d = delete_bot_registered [OF ex_hung_facts(1)]
  have tw: "terminate_then_wait (process ex_rp) (os ex_hung)
             = (Inl (TimeoutExpired ''Command timed out after 5 seconds''),
                (os ex_hung)\<lparr>trace := trace (os ex_hung) @ [Terminate 100, Wait 100 5]\<rparr>)"
    unfolding ex_record_facts
    by (rule terminate_then_wait_wait_raises [OF ex_hung_facts(3) ex_hung_facts(4)])
  then have t: "fst (terminate_then_wait (process ex_rp) (os ex_hung))
             = Inl (TimeoutExpired ''Command timed out after 5 seconds'')"
    by simp
  note sw = stop_if_running_swallows [OF ex_hung_facts(2) t]
  have r: "raises (os (stop_if_running ex_hung ?id)) (Remove p) = None" for p
    unfolding stop_if_running_keeps by (rule ex_hung_facts)
  have st: "trace (os (stop_if_running ex_hung ?id)) = [Terminate 100, Wait 100 5]"
    unfolding stop_if_running_def using ex_hung_facts(2) tw by (simp add: ex_hung_facts)
  have 1: "fst (delete_bot ex_hung ?id)
     = Inr (JObj [(''success'', JBool True), (''message'', JStr ''Bot deleted successfully'')], 200)"
    unfolding d by simp
  have 2: "map_of (bots_db (snd (delete_bot ex_hung ?id))) ?id = None"
    unfolding d by (simp add: map_of_delete_same)
  have 3: "files (os (snd (delete_bot ex_hung ?id))) (filepath ex_bot) = None"
    unfolding d using delete_files_removes(1) [OF r r] by simp
  have 4: "files (os (snd (delete_bot ex_hung ?id))) (log_path ?id) = None"
    unfolding d using delete_files_removes(2) [OF r r] by simp
  have 5: "map_of (running_processes (snd (delete_bot ex_hung ?id))) ?id = Some ex_rp"
    unfolding d by (simp add: sw ex_hung_facts)
  have 6: "100 \<in> procs (os (snd (delete_bot ex_hung ?id)))"
    unfolding d by (simp add: delete_files_keeps sw ex_hung_facts)
  have 7: "Kill 100 \<notin> set (trace (os (snd (delete_bot ex_hung ?id))))"
  proof
    assume "Kill 100 \<in> set (trace (os (snd (delete_bot ex_hung ?id))))"
    then have "Kill 100 \<in> set (trace (delete_files ex_bot ?id (os (stop_if_running ex_hung ?id))))"
      unfolding d by simp
    with delete_files_trace
    have "Kill 100 \<in> set (trace (os (stop_if_running ex_hung ?id)))
            \<union> {Remove (filepath ex_bot), Remove (log_path ?id)}"
      by (rule subsetD)
    then show False
      unfolding st by simp
  qed
  from ex_hung_facts(1,2) 1 2 3 4 5 6 7 show ?thesis
    by (intro conjI)
qed

text \<open>
  What delete does achieve. For a bot id of the registry, the route answers success and
  the registry has no entry for the id afterwards. If the process table had no entry for
  the id it has none afterwards; if it had one and \<^verbatim>\<open>terminate()\<close> and
  \<^verbatim>\<open>wait(timeout=5)\<close> do not raise, the entry is removed and the process has been
  waited for. If \<^verbatim>\<open>os.remove\<close> raises on neither the script path nor the log path, no
  file is left at either path.
\<close>

lemma delete_bot_cleans_up:
  assumes "map_of (bots_db s) bot_id = Some b"
  shows
    "fst (delete_bot s bot_id)
       = Inr (JObj [(''success'', JBool True),
                    (''message'', JStr ''Bot deleted successfully'')], 200) \<and>
     map_of (bots_db (snd (delete_bot s bot_id))) bot_id = None \<and>
     (map_of (running_processes s) bot_id = None
        \<longrightarrow> map_of (running_processes (snd (delete_bot s bot_id))) bot_id = None) \<and>
     (\<forall>rp. map_of (running_processes s) bot_id = Some rp \<and>
           raises (os s) (Terminate (process rp)) = None \<and>
           raises (os s) (Wait (process rp) 5) = None
        \<longrightarrow> map_of (running_processes (snd (delete_bot s bot_id))) bot_id = None \<and>
            process rp \<notin> procs (os (snd (delete_bot s bot_id)))) \<and>
     (raises (os s) (Remove (filepath b)) = None \<and>
      raises (os s) (Remove (log_path bot_id)) = None
        \<longrightarrow> files (os (snd (delete_bot s bot_id))) (filepath b) = None \<and>
            files (os (snd (delete_bot s bot_id))) (log_path bot_id) = None)"
proof (intro conjI allI impI)
  note d = delete_bot_registered [OF assms]
  show "fst (delete_bot s bot_id)
       = Inr (JObj [(''success'', JBool True),
                    (''message'', JStr ''Bot deleted successfully'')], 200)"
    unfolding d by simp
  show "map_of (bots_db (snd (delete_bot s bot_id))) bot_id = None"
    unfolding d by (simp add: map_of_delete_same)
  {
    assume "map_of (running_processes s) bot_id = None"
    then show "map_of (running_processes (snd (delete_bot s bot_id))) bot_id = None"
      unfolding d by (simp add: stop_if_running_not_running)
  }
  {
    fix rp
    assume h: "map_of (running_processes s) bot_id = Some rp \<and>
           raises (os s) (Terminate (process rp)) = None \<and>
           raises (os s) (Wait (process rp) 5) = None"
    note g = stop_if_running_graceful [OF conjunct1 [OF h] conjunct1 [OF conjunct2 [OF h]]
               conjunct2 [OF conjunct2 [OF h]]]
    show "map_of (running_processes (snd (delete_bot s bot_id))) bot_id = None"
      unfolding d by (simp add: g map_of_delete_same)
    show "process rp \<notin> procs (os (snd (delete_bot s bot_id)))"
      unfolding d by (simp add: delete_files_keeps g)
  }
  {
    assume h: "raises (os s) (Remove (filepath b)) = None \<and>
      raises (os s) (Remove (log_path bot_id)) = None"
    have r1: "raises (os (stop_if_running s bot_id)) (Remove (filepath b)) = None"
      unfolding stop_if_running_keeps using h by simp
    have r2: "raises (os (stop_if_running s bot_id)) (Remove (log_path bot_id)) = None"
      unfolding stop_if_running_keeps using h by simp
    show "files (os (snd (delete_bot s bot_id))) (filepath b) = None"
      unfolding d using delete_files_removes(1) [OF r1 r2] by simp
    show "files (os (snd (delete_bot s bot_id))) (log_path bot_id) = None"
      unfolding d using delete_files_removes(2) [OF r1 r2] by simp
  }
qed

text \<open>Deleting Alice's bot on a machine where nothing fails, once while it runs and once
  before it was ever started.\<close>

lemma delete_bot_cleans_up_examples:
  "map_of (bots_db ex_running) ''alice_bot_1700000000'' = Some ex_bot \<and>
   map_of (running_processes ex_running) ''alice_bot_1700000000'' = Some ex_rp \<and>
   fst (delete_bot ex_running ''alice_bot_1700000000'')
     = Inr (JObj [(''success'', JBool True), (''message'', JStr ''Bot deleted successfully'')], 200) \<and>
   map_of (bots_db (snd (delete_bot ex_running ''alice_bot_1700000000''))) ''alice_bot_1700000000''
     = None \<and>
   map_of (running_processes (snd (delete_bot ex_running ''alice_bot_1700000000'')))
     ''alice_bot_1700000000'' = None \<and>
   100 \<notin> procs (os (snd (delete_bot ex_running ''alice_bot_1700000000''))) \<and>
   files (os (snd (delete_bot ex_running ''alice_bot_1700000000'')))
     ''/tmp/bots/alice_bot_1700000000.py'' = None \<and>
   files (os (snd (delete_bot ex_running ''alice_bot_1700000000'')))
     ''/tmp/bots/alice_bot_1700000000.log'' = None \<and>
   map_of (bots_db ex_uploaded) ''alice_bot_1700000000'' = Some ex_bot \<and>
   map_of (running_processes ex_uploaded) ''alice_bot_1700000000'' = None \<and>
   map_of (bots_db (snd (delete_bot ex_uploaded ''alice_bot_1700000000''))) ''alice_bot_1700000000''
     = None \<and>
   map_of (running_processes (snd (delete_bot ex_uploaded ''alice_bot_1700000000'')))
     ''alice_bot_1700000000'' = None \<and>
   files (os (snd (delete_bot ex_uploaded ''alice_bot_1700000000'')))
     ''/tmp/bots/alice_bot_1700000000.py'' = None"
proof -
  have a: "fst (delete_bot ex_running ''alice_bot_1700000000'')
     = Inr (JObj [(''success'', JBool True), (''message'', JStr ''Bot deleted successfully'')], 200) \<and>
   map_of (bots_db (snd (delete_bot ex_running ''alice_bot_1700000000''))) ''alice_bot_1700000000''
     = None \<and>
   map_of (running_processes (snd (delete_bot ex_running ''alice_bot_1700000000'')))
     ''alice_bot_1700000000'' = None \<and>
   100 \<notin> procs (os (snd (delete_bot ex_running ''alice_bot_1700000000''))) \<and>
   files (os (snd (delete_bot ex_running ''alice_bot_1700000000'')))
     ''/tmp/bots/alice_bot_1700000000.py'' = None \<and>
   files (os (snd (delete_bot ex_running ''alice_bot_1700000000'')))
     ''/tmp/bots/alice_bot_1700000000.log'' = None"
    using delete_bot_cleans_up [OF ex_running_facts(1), unfolded ex_log_path ex_record_facts]
    by (simp add: ex_running_facts ex_record_facts)
  have h: "map_of (bots_db ex_uploaded) ''alice_bot_1700000000'' = Some ex_bot"
    by (simp add: ex_uploaded_def)
  have n: "map_of (running_processes ex_uploaded) ''alice_bot_1700000000'' = None"
    by (simp add: ex_uploaded_def)
  have r: "raises (os ex_uploaded) c = None" for c
    by (simp add: ex_uploaded_def ex_os_def)
  have b: "map_of (bots_db (snd (delete_bot ex_uploaded ''alice_bot_1700000000''))) ''alice_bot_1700000000''
     = None \<and>
   map_of (running_processes (snd (delete_bot ex_uploaded ''alice_bot_1700000000'')))
     ''alice_bot_1700000000'' = None \<and>
   files (os (snd (delete_bot ex_uploaded ''alice_bot_1700000000'')))
     ''/tmp/bots/alice_bot_1700000000.py'' = None"
    using delete_bot_cleans_up [OF h, unfolded ex_log_path ex_record_facts]
    by (simp add: n r)
  show ?thesis
    using ex_running_facts(1,2) a h n b by simp
qed

section \<open>Start of a bot that is already running\<close>

text \<open>The registry is looked up before the process table.\<close>

lemma start_bot_not_found:
  "map_of (bots_db s) bot_id = None \<Longrightarrow> start_bot s bot_id = (Inr (failure ''Bot not found'', 404), s)"
  by (simp add: start_bot_def)

text \<open>
  Against "every id of the process table gets \<^verbatim>\<open>Bot already running\<close>": the registry is
  looked up first. After the delete above, the id is still in the process table and no
  longer in the registry, and the start route answers 404 \<^verbatim>\<open>Bot not found\<close>.
\<close>

theorem start_bot_orphan_counterexample:
  "map_of (running_processes (snd (delete_bot ex_stuck ''alice_bot_1700000000'')))
     ''alice_bot_1700000000'' = Some ex_rp \<and>
   fst (start_bot (snd (delete_bot ex_stuck ''alice_bot_1700000000'')) ''alice_bot_1700000000'')
     = Inr (failure ''Bot not found'', 404)"
  using delete_bot_ex_stuck(3) start_bot_not_found [OF delete_bot_ex_stuck(2)] by simp

text \<open>
  Claim C5, amended. For a bot id that is in the registry and already has an entry in the
  process table, the start route answers 400 \<^verbatim>\<open>Bot already running\<close> and the whole
  state is unchanged: no call reaches the operating system (so no second process is
  spawned), and the entry keeps its pid, handle, log path and start time.
\<close>

theorem start_bot_already_running:
  assumes "map_of (bots_db s) bot_id = Some b"
    and "map_of (running_processes s) bot_id = Some rp"
  shows "start_bot s bot_id = (Inr (failure ''Bot already running'', 400), s)"
  using assms by (simp add: start_bot_def)

theorem start_bot_already_running_witness:
  "map_of (bots_db ex_running) ''alice_bot_1700000000'' = Some ex_bot \<and>
   map_of (running_processes ex_running) ''alice_bot_1700000000'' = Some ex_rp \<and>
   start_bot ex_running ''alice_bot_1700000000''
     = (Inr (failure ''Bot already running'', 400), ex_running)"
  using ex_running_facts(1,2) start_bot_already_running [OF ex_running_facts(1,2)] by simp

section \<open>Uploading a bot\<close>

lemma allowed_file_nonempty: "allowed_file fname \<Longrightarrow> fname \<noteq> []"
  by (auto simp add: allowed_file_def)

text \<open>Under \<open>allowed_file\<close> the file name has a dot, so \<^verbatim>\<open>rsplit('.', 1)\<close> has the two
  pieces that the index 1 of the upload route needs.\<close>

lemma allowed_file_two_pieces:
  "allowed_file fname \<Longrightarrow> length (rsplit1 CHR ''.'' fname) = 2"
  by (simp add: allowed_file_def rsplit1_def)

text \<open>An upload with a file, both form fields, room in the quota and an allowed
  extension, whose file can be saved: the answer and the new state.\<close>

lemma upload_bot_accepted:
  assumes "files_bot_file req = Some (fname, content)"
    and "form_username req = Some user" and "user \<noteq> []"
    and "form_bot_name req = Some bot_name" and "bot_name \<noteq> []"
    and "user_bot_count s user < MAX_BOTS_PER_USER"
    and "allowed_file fname"
    and "raises (os s) (Save (os_path_join UPLOAD_FOLDER
           (secure_filename (generate_bot_id (os s) user bot_name @ ''.''
              @ rsplit1 CHR ''.'' fname ! 1)))) = None"
  shows "upload_bot secure_filename s req =
    (Inr (JObj [(''success'', JBool True),
                (''message'', JStr ''Bot uploaded successfully''),
                (''bot_id'', JStr (generate_bot_id (os s) user bot_name))], 200),
     s\<lparr>bots_db :=
         AList.update (generate_bot_id (os s) user bot_name)
           \<lparr>ident = generate_bot_id (os s) user bot_name,
            name = bot_name,
            username = user,
            filepath = os_path_join UPLOAD_FOLDER
               (secure_filename (generate_bot_id (os s) user bot_name @ ''.''
                  @ rsplit1 CHR ''.'' fname ! 1)),
            file_type = rsplit1 CHR ''.'' fname ! 1,
            created_at = now_iso (os s),
            status = ''stopped''\<rparr>
           (bots_db s),
        os := (os s)\<lparr>files := (files (os s))
                 (os_path_join UPLOAD_FOLDER
                    (secure_filename (generate_bot_id (os s) user bot_name @ ''.''
                       @ rsplit1 CHR ''.'' fname ! 1)) \<mapsto> content),
               trace := trace (os s) @ [Save (os_path_join UPLOAD_FOLDER
                    (secure_filename (generate_bot_id (os s) user bot_name @ ''.''
                       @ rsplit1 CHR ''.'' fname ! 1)))]\<rparr>\<rparr>)"
  using assms allowed_file_nonempty [OF assms(7)]
  by (simp add: upload_bot_def falsy_def Let_def file_save_def invoke_def)

text \<open>The quota: an owner already holding \<open>MAX_BOTS_PER_USER\<close> records gets 403 and
  nothing changes; below it, an upload whose generated id is not yet a key of the
  registry adds exactly one record, owned by the uploader.\<close>

lemma upload_bot_quota_exceeded:
  assumes "files_bot_file req = Some (fname, content)"
    and "form_username req = Some user" and "user \<noteq> []"
    and "form_bot_name req = Some bot_name" and "bot_name \<noteq> []"
    and "user_bot_count s user \<ge> MAX_BOTS_PER_USER"
  shows "upload_bot secure_filename s req
           = (Inr (failure ''Free tier limit: 3 bots per user'', 403), s)"
  using assms
  by (simp add: upload_bot_def falsy_def Let_def MAX_BOTS_PER_USER_def)

lemma update_fresh: "map_of al k = None \<Longrightarrow> AList.update k v al = al @ [(k, v)]"
  by (induction al) (auto split: if_splits)

lemma upload_bot_new_entry:
  assumes "files_bot_file req = Some (fname, content)"
    and "form_username req = Some user" and "user \<noteq> []"
    and "form_bot_name req = Some bot_name" and "bot_name \<noteq> []"
    and "user_bot_count s user < MAX_BOTS_PER_USER"
    and "allowed_file fname"
    and "raises (os s) (Save (os_path_join UPLOAD_FOLDER
           (secure_filename (generate_bot_id (os s) user bot_name @ ''.''
              @ rsplit1 CHR ''.'' fname ! 1)))) = None"
    and "map_of (bots_db s) (generate_bot_id (os s) user bot_name) = None"
  shows "length (bots_db (snd (upload_bot secure_filename s req))) = Suc (length (bots_db s))"
    and "user_bot_count (snd (upload_bot secure_filename s req)) user = Suc (user_bot_count s user)"
    and "k \<noteq> generate_bot_id (os s) user bot_name
           \<Longrightarrow> map_of (bots_db (snd (upload_bot secure_filename s req))) k = map_of (bots_db s) k"
proof -
  note u = upload_bot_accepted [where secure_filename = secure_filename, OF assms(1-8)]
  show "length (bots_db (snd (upload_bot secure_filename s req))) = Suc (length (bots_db s))"
    unfolding u by (simp add: update_fresh [OF assms(9)])
  show "user_bot_count (snd (upload_bot secure_filename s req)) user = Suc (user_bot_count s user)"
    unfolding u by (simp add: update_fresh [OF assms(9)] user_bot_count_def)
  show "k \<noteq> generate_bot_id (os s) user bot_name
           \<Longrightarrow> map_of (bots_db (snd (upload_bot secure_filename s req))) k = map_of (bots_db s) k"
    unfolding u by (simp add: map_of_update_other)
qed

text \<open>The example requests, evaluated.\<close>

lemma ex_strings:
  "generate_bot_id ex_os ''alice'' ''bot'' = ''alice_bot_1700000000''"
  "os_path_join UPLOAD_FOLDER ''alice_bot_1700000000.py'' = ''/tmp/bots/alice_bot_1700000000.py''"
  "os_path_join UPLOAD_FOLDER ''alice_bot_1700000000.js'' = ''/tmp/bots/alice_bot_1700000000.js''"
  "os_path_join UPLOAD_FOLDER ''alice_bot_1700000000.PY'' = ''/tmp/bots/alice_bot_1700000000.PY''"
  by (simp_all add: generate_bot_id_def ex_os_def os_path_join_def UPLOAD_FOLDER_def)

lemma ex_extensions:
  "rsplit1 CHR ''.'' ''bot.py'' ! 1 = ''py''"
  "rsplit1 CHR ''.'' ''other.js'' ! 1 = ''js''"
  "rsplit1 CHR ''.'' ''bot.PY'' ! 1 = ''PY''"
  "allowed_file ''bot.py''"
  "allowed_file ''other.js''"
  "allowed_file ''bot.PY''"
  by (simp_all add: allowed_file_def rsplit1_def lower_def lower_char_def ALLOWED_EXTENSIONS_def)

lemma upload_bot_ex_empty:
  "fst (upload_bot (\<lambda>n. n) ex_empty ex_req)
     = Inr (JObj [(''success'', JBool True),
                  (''message'', JStr ''Bot uploaded successfully''),
                  (''bot_id'', JStr ''alice_bot_1700000000'')], 200)"
  "bots_db ex_first = [(''alice_bot_1700000000'', ex_bot)]"
  "running_processes ex_first = []"
  "clock (os ex_first) = 1700000000"
  "now_iso (os ex_first) = ''2023-11-14T22:13:20''"
  "raises (os ex_first) c = None"
proof -
  have e: "files_bot_file ex_req = Some (''bot.py'', ''print(1)'')"
    "form_username ex_req = Some ''alice''" "''alice'' \<noteq> []"
    "form_bot_name ex_req = Some ''bot''" "''bot'' \<noteq> []"
    by (simp_all add: ex_req_def)
  have q: "user_bot_count ex_empty ''alice'' < MAX_BOTS_PER_USER"
    by (simp add: user_bot_count_def ex_empty_def MAX_BOTS_PER_USER_def)
  have r: "raises (os ex_empty) c = None" for c
    by (simp add: ex_empty_def ex_os_def)
  note u = upload_bot_accepted [where secure_filename = "\<lambda>n. n" and s = ex_empty, OF e q ex_extensions(4) r]
  have o: "os ex_empty = ex_os"
    by (simp add: ex_empty_def)
  note u' = u [unfolded o ex_strings ex_extensions append.simps ex_strings]
  show "fst (upload_bot (\<lambda>n. n) ex_empty ex_req)
     = Inr (JObj [(''success'', JBool True),
                  (''message'', JStr ''Bot uploaded successfully''),
                  (''bot_id'', JStr ''alice_bot_1700000000'')], 200)"
    unfolding u' by simp
  show "bots_db ex_first = [(''alice_bot_1700000000'', ex_bot)]"
    unfolding ex_first_def u' by (simp add: ex_empty_def ex_bot_def ex_os_def)
  show "running_processes ex_first = []"
    unfolding ex_first_def u' by (simp add: ex_empty_def)
  show "clock (os ex_first) = 1700000000"
    unfolding ex_first_def u' by (simp add: ex_os_def)
  show "now_iso (os ex_first) = ''2023-11-14T22:13:20''"
    unfolding ex_first_def u' by (simp add: ex_os_def)
  show "raises (os ex_first) c = None"
    unfolding ex_first_def u' by (simp add: ex_os_def)
qed

lemma ex_first_strings:
  "generate_bot_id (os ex_first) ''alice'' ''bot'' = ''alice_bot_1700000000''"
  by (simp add: generate_bot_id_def upload_bot_ex_empty)

lemma ex_first_count: "user_bot_count ex_first ''alice'' = 1"
  by (simp add: user_bot_count_def upload_bot_ex_empty ex_bot_def)

lemma ex_req_facts:
  "files_bot_file ex_req = Some (''bot.py'', ''print(1)'')"
  "form_username ex_req = Some ''alice''"
  "form_bot_name ex_req = Some ''bot''"
  "files_bot_file ex_req_js = Some (''other.js'', ''console.log(2)'')"
  "form_username ex_req_js = Some ''alice''"
  "form_bot_name ex_req_js = Some ''bot''"
  "files_bot_file ex_req_upper = Some (''bot.PY'', ''print(1)'')"
  "form_username ex_req_upper = Some ''alice''"
  "form_bot_name ex_req_upper = Some ''bot''"
  "''alice'' \<noteq> []" "''bot'' \<noteq> []"
  by (simp_all add: ex_req_def ex_req_js_def ex_req_upper_def)

lemma ex_first_below_quota: "user_bot_count ex_first ''alice'' < MAX_BOTS_PER_USER"
  by (simp add: ex_first_count MAX_BOTS_PER_USER_def)

text \<open>
  Claim C4, at an input where the code departs from it. Alice holds one bot (at most
  \<open>N - 1 = 2\<close>) and uploads \<^verbatim>\<open>bot.py\<close> under the same bot name within the second of
  her first upload. The upload is accepted, but the generated id is the one already
  registered, so the assignment \<^verbatim>\<open>bots_db[bot_id] = ...\<close> replaces that record: the
  registry has as many entries as before and Alice still holds one bot. (The quota
  check itself is as claimed: \<open>upload_bot_quota_exceeded\<close>, \<open>upload_bot_new_entry\<close>.)
\<close>

theorem upload_bot_same_second_no_new_entry:
  "user_bot_count ex_first ''alice'' = 1 \<and>
   fst (upload_bot (\<lambda>n. n) ex_first ex_req)
     = Inr (JObj [(''success'', JBool True),
                  (''message'', JStr ''Bot uploaded successfully''),
                  (''bot_id'', JStr ''alice_bot_1700000000'')], 200) \<and>
   length (bots_db (snd (upload_bot (\<lambda>n. n) ex_first ex_req))) = length (bots_db ex_first) \<and>
   user_bot_count (snd (upload_bot (\<lambda>n. n) ex_first ex_req)) ''alice'' = 1"
proof -
  note u = upload_bot_accepted [where secure_filename = "\<lambda>n. n" and s = ex_first,
      OF ex_req_facts(1,2) ex_req_facts(10) ex_req_facts(3) ex_req_facts(11)
         ex_first_below_quota ex_extensions(4) upload_bot_ex_empty(6),
      unfolded ex_first_strings ex_extensions append.simps ex_strings]
  have 1: "fst (upload_bot (\<lambda>n. n) ex_first ex_req)
     = Inr (JObj [(''success'', JBool True),
                  (''message'', JStr ''Bot uploaded successfully''),
                  (''bot_id'', JStr ''alice_bot_1700000000'')], 200)"
    unfolding u by simp
  have 2: "bots_db (snd (upload_bot (\<lambda>n. n) ex_first ex_req)) = [(''alice_bot_1700000000'', ex_bot)]"
    unfolding u by (simp add: upload_bot_ex_empty ex_bot_def)
  have 3: "user_bot_count (snd (upload_bot (\<lambda>n. n) ex_first ex_req)) ''alice'' = 1"
    unfolding user_bot_count_def 2 by (simp add: ex_bot_def)
  show ?thesis
    using ex_first_count 1 3 unfolding 2 by (simp add: upload_bot_ex_empty)
qed

text \<open>
  Claim C7, at an input where the code departs from it. Two uploads by Alice under the
  bot name \<^verbatim>\<open>bot\<close> within one second, first \<^verbatim>\<open>bot.py\<close> and then \<^verbatim>\<open>other.js\<close>: both
  answers carry the id \<^verbatim>\<open>alice_bot_1700000000\<close>, and after the second the registry
  holds a single record, the JavaScript one; the record of the first upload is gone.
\<close>

theorem generate_bot_id_collides_within_a_second:
  "fst (upload_bot (\<lambda>n. n) ex_empty ex_req)
     = Inr (JObj [(''success'', JBool True),
                  (''message'', JStr ''Bot uploaded successfully''),
                  (''bot_id'', JStr ''alice_bot_1700000000'')], 200) \<and>
   map_of (bots_db (snd (upload_bot (\<lambda>n. n) ex_empty ex_req))) ''alice_bot_1700000000''
     = Some ex_bot \<and>
   fst (upload_bot (\<lambda>n. n) (snd (upload_bot (\<lambda>n. n) ex_empty ex_req)) ex_req_js)
     = Inr (JObj [(''success'', JBool True),
                  (''message'', JStr ''Bot uploaded successfully''),
                  (''bot_id'', JStr ''alice_bot_1700000000'')], 200) \<and>
   bots_db (snd (upload_bot (\<lambda>n. n) (snd (upload_bot (\<lambda>n. n) ex_empty ex_req)) ex_req_js))
     = [(''alice_bot_1700000000'',
         ex_bot\<lparr>filepath := ''/tmp/bots/alice_bot_1700000000.js'', file_type := ''js''\<rparr>)]"
proof -
  note u = upload_bot_accepted [where secure_filename = "\<lambda>n. n" and s = ex_first,
      OF ex_req_facts(4,5) ex_req_facts(10) ex_req_facts(6) ex_req_facts(11)
         ex_first_below_quota ex_extensions(5) upload_bot_ex_empty(6),
      unfolded ex_first_strings ex_extensions append.simps ex_strings]
  have 1: "fst (upload_bot (\<lambda>n. n) ex_first ex_req_js)
     = Inr (JObj [(''success'', JBool True),
                  (''message'', JStr ''Bot uploaded successfully''),
                  (''bot_id'', JStr ''alice_bot_1700000000'')], 200)"
    unfolding u by simp
  have 2: "bots_db (snd (upload_bot (\<lambda>n. n) ex_first ex_req_js))
     = [(''alice_bot_1700000000'',
         ex_bot\<lparr>filepath := ''/tmp/bots/alice_bot_1700000000.js'', file_type := ''js''\<rparr>)]"
    unfolding u by (simp add: upload_bot_ex_empty ex_bot_def)
  have 3: "map_of (bots_db ex_first) ''alice_bot_1700000000'' = Some ex_bot"
    by (simp add: upload_bot_ex_empty)
  show ?thesis
    unfolding ex_first_def [symmetric] using upload_bot_ex_empty(1) 1 2 3 by simp
qed

section \<open>The stored status field\<close>

lemma bot_dict_keys:
  "map fst (bot_dict r)
     = [''id'', ''name'', ''username'', ''filepath'', ''file_type'', ''created_at'', ''status'']"
  by (simp add: bot_dict_def)

lemma bot_dict_status: "map_of (bot_dict r) ''status'' = Some (JStr (status r))"
  by (simp add: bot_dict_def)

lemma upload_bot_stores_stopped:
  assumes "fst (upload_bot secure_filename s req) = Inr (j, 200)"
  shows "\<exists>bot_id r. jget j ''bot_id'' = Some (JStr bot_id) \<and>
           map_of (bots_db (snd (upload_bot secure_filename s req))) bot_id = Some r \<and>
           status r = ''stopped''"
  using assms
  by (auto simp add: upload_bot_def Let_def failure_def file_save_def invoke_def
        map_of_update_same split: option.splits prod.splits if_splits sum.splits)

lemma start_bot_keeps_registry: "bots_db (snd (start_bot s bot_id)) = bots_db s"
  by (simp add: start_bot_def launch_def open_w_def popen_def invoke_def
        split: option.splits prod.splits sum.splits)

lemma stop_bot_keeps_registry: "bots_db (snd (stop_bot s bot_id)) = bots_db s"
  by (simp add: stop_bot_def terminate_then_wait_def terminate_def wait_def kill_def invoke_def
        split: option.splits prod.splits sum.splits exn.splits)

lemma reported_status_derived:
  assumes "map_of (bots_db s) bot_id = Some b"
  shows "reported s bot_id ''status''
           = Some (JStr (if map_of (running_processes s) bot_id = None
                         then ''stopped'' else ''running''))"
proof (cases "map_of (running_processes s) bot_id")
  case None
  then show ?thesis using reported_status_stopped [OF assms None] by simp
next
  case (Some rp)
  then show ?thesis using reported_status_running [OF assms Some] by simp
qed

text \<open>
  Against "status is not a field of the stored record": the record the first upload
  stores has seven keys, the last of them \<^verbatim>\<open>status\<close> with the value \<^verbatim>\<open>stopped\<close>
  (line 119 of the source).
\<close>

theorem upload_bot_stores_status_counterexample:
  "map_of (bots_db (snd (upload_bot (\<lambda>n. n) ex_empty ex_req))) ''alice_bot_1700000000''
     = Some ex_bot \<and>
   status ex_bot = ''stopped'' \<and>
   map_of (bot_dict ex_bot) ''status'' = Some (JStr ''stopped'') \<and>
   map fst (bot_dict ex_bot)
     = [''id'', ''name'', ''username'', ''filepath'', ''file_type'', ''created_at'', ''status'']"
proof -
  have 1: "map_of (bots_db ex_first) ''alice_bot_1700000000'' = Some ex_bot"
    by (simp add: upload_bot_ex_empty)
  have 2: "status ex_bot = ''stopped''"
    by (simp add: ex_bot_def)
  show ?thesis
    unfolding ex_first_def [symmetric] bot_dict_keys bot_dict_status 2 using 1 by simp
qed

text \<open>
  Claim C6, amended. Every accepted upload stores a record with exactly the keys
  \<^verbatim>\<open>id\<close>, \<^verbatim>\<open>name\<close>, \<^verbatim>\<open>username\<close>, \<^verbatim>\<open>filepath\<close>, \<^verbatim>\<open>file_type\<close>, \<^verbatim>\<open>created_at\<close> and
  \<^verbatim>\<open>status\<close>, the stored status being the constant \<^verbatim>\<open>stopped\<close>. Start and stop never
  write to the registry, so the stored status never follows the lifecycle. The status the
  status route reports for a registered bot is \<^verbatim>\<open>running\<close> or \<^verbatim>\<open>stopped\<close> by membership
  in the process table alone, whatever is stored.
\<close>

theorem stored_status_is_constant_reported_status_is_derived:
  assumes "fst (upload_bot secure_filename s0 req) = Inr (j, 200)"
    and "map_of (bots_db s) bot_id = Some b"
  shows
    "(\<exists>new_id r. jget j ''bot_id'' = Some (JStr new_id) \<and>
        map_of (bots_db (snd (upload_bot secure_filename s0 req))) new_id = Some r \<and>
        status r = ''stopped'' \<and>
        map fst (bot_dict r)
          = [''id'', ''name'', ''username'', ''filepath'', ''file_type'', ''created_at'',
             ''status'']) \<and>
     bots_db (snd (start_bot s bot_id)) = bots_db s \<and>
     bots_db (snd (stop_bot s bot_id)) = bots_db s \<and>
     reported s bot_id ''status''
       = Some (JStr (if map_of (running_processes s) bot_id = None
                     then ''stopped'' else ''running''))"
proof -
  from upload_bot_stores_stopped [OF assms(1)]
  obtain new_id r where "jget j ''bot_id'' = Some (JStr new_id)"
    and "map_of (bots_db (snd (upload_bot secure_filename s0 req))) new_id = Some r"
    and "status r = ''stopped''"
    by (elim exE conjE)
  then have "\<exists>new_id r. jget j ''bot_id'' = Some (JStr new_id) \<and>
        map_of (bots_db (snd (upload_bot secure_filename s0 req))) new_id = Some r \<and>
        status r = ''stopped'' \<and>
        map fst (bot_dict r)
          = [''id'', ''name'', ''username'', ''filepath'', ''file_type'', ''created_at'',
             ''status'']"
    using bot_dict_keys by (intro exI conjI)
  then show ?thesis
    using start_bot_keeps_registry stop_bot_keeps_registry reported_status_derived [OF assms(2)]
    by (intro conjI)
qed

text \<open>Alice's first upload, and her bot while it runs: stored \<^verbatim>\<open>stopped\<close>, reported
  \<^verbatim>\<open>running\<close>.\<close>

theorem stored_status_is_constant_reported_status_is_derived_witness:
  "fst (upload_bot (\<lambda>n. n) ex_empty ex_req)
     = Inr (JObj [(''success'', JBool True),
                  (''message'', JStr ''Bot uploaded successfully''),
                  (''bot_id'', JStr ''alice_bot_1700000000'')], 200) \<and>
   map_of (bots_db ex_running) ''alice_bot_1700000000'' = Some ex_bot \<and>
   (\<exists>new_id r.
        jget (JObj [(''success'', JBool True),
                    (''message'', JStr ''Bot uploaded successfully''),
                    (''bot_id'', JStr ''alice_bot_1700000000'')]) ''bot_id''
          = Some (JStr new_id) \<and>
        map_of (bots_db (snd (upload_bot (\<lambda>n. n) ex_empty ex_req))) new_id = Some r \<and>
        status r = ''stopped'' \<and>
        map fst (bot_dict r)
          = [''id'', ''name'', ''username'', ''filepath'', ''file_type'', ''created_at'',
             ''status'']) \<and>
   bots_db (snd (start_bot ex_running ''alice_bot_1700000000'')) = bots_db ex_running \<and>
   bots_db (snd (stop_bot ex_running ''alice_bot_1700000000'')) = bots_db ex_running \<and>
   status ex_bot = ''stopped'' \<and>
   reported ex_running ''alice_bot_1700000000'' ''status'' = Some (JStr ''running'')"
proof -
  note h1 = upload_bot_ex_empty(1)
  note h2 = ex_running_facts(1)
  note t = stored_status_is_constant_reported_status_is_derived
             [where secure_filename = "\<lambda>n. n", OF h1 h2]
  have r: "reported ex_running ''alice_bot_1700000000'' ''status'' = Some (JStr ''running'')"
    using conjunct2 [OF conjunct2 [OF conjunct2 [OF t]]] by (simp add: ex_running_facts)
  have st: "status ex_bot = ''stopped''"
    by (simp add: ex_bot_def)
  show ?thesis
    using h1 h2 conjunct1 [OF t] conjunct1 [OF conjunct2 [OF t]]
      conjunct1 [OF conjunct2 [OF conjunct2 [OF t]]] st r
    by (intro conjI)
qed

section \<open>An extension in capitals\<close>





section \<open>The tail of the log\<close>

lemma split_nl_nonempty: "split_nl xs \<noteq> []"
  by (induction xs) auto

lemma split_nl_line:
  "CHR 0x0A \<notin> set l \<Longrightarrow> split_nl (l @ CHR 0x0A # rest) = l # split_nl rest"
  by (induction l) auto

lemma split_nl_last_line: "CHR 0x0A \<notin> set l \<Longrightarrow> split_nl l = [l]"
  by (induction l) auto

lemma split_nl_terminated:
  "\<forall>l\<in>set ls. CHR 0x0A \<notin> set l
     \<Longrightarrow> split_nl (concat (map (\<lambda>l. l @ [CHR 0x0A]) ls)) = ls @ [[]]"
  by (induction ls) (simp_all add: split_nl_line)

lemma split_nl_joined:
  "ls \<noteq> [] \<Longrightarrow> \<forall>l\<in>set ls. CHR 0x0A \<notin> set l \<Longrightarrow> split_nl (join_nl ls) = ls"
  by (induction ls rule: join_nl.induct) (simp_all add: split_nl_line split_nl_last_line)

lemma join_nl_terminated:
  "join_nl (ls @ [[]]) = concat (map (\<lambda>l. l @ [CHR 0x0A]) ls)"
  by (induction ls rule: join_nl.induct) simp_all

lemma string_of_nat_digits: "set (string_of_nat n) \<subseteq> set ''0123456789''"
proof (induction n rule: string_of_nat.induct)
  case (1 n)
  have d: "''0123456789'' ! k \<in> set ''0123456789''" if "k < 10" for k
    using that by (intro nth_mem) simp
  show ?case
  proof (cases "n < 10")
    case True
    then show ?thesis using d [OF True] by (subst string_of_nat.simps) simp
  next
    case False
    have "n mod 10 < 10" by simp
    from d [OF this] 1 [OF False] False show ?thesis
      by (subst string_of_nat.simps) simp
  qed
qed

lemma string_of_nat_one_line: "CHR 0x0A \<notin> set (string_of_nat n)"
proof
  assume "CHR 0x0A \<in> set (string_of_nat n)"
  with string_of_nat_digits [of n] have "CHR 0x0A \<in> set ''0123456789''" by (rule subsetD)
  then show False by simp
qed

lemma last_n_terminated:
  assumes "length ls = 1500"
  shows "last_n 1000 (ls @ [[]]) = drop 501 ls @ [[]]"
  using assms by (simp add: last_n_def)

lemma get_bot_logs_reads:
  assumes "map_of (bots_db s) bot_id = Some b"
    and "files (os s) (log_path bot_id) = Some text"
    and "raises (os s) (ReadText (log_path bot_id)) = None"
  shows "get_bot_logs s bot_id =
     (JObj [(''success'', JBool True),
            (''logs'', JStr (if length (split_nl text) > 1000
                             then join_nl (last_n 1000 (split_nl text)) else text))], 200)"
  using assms by (simp add: get_bot_logs_def os_path_exists_def read_text_def Let_def)

text \<open>
  Claim C8, at an input where the code departs from it. A registered bot whose log holds
  1500 lines, each ended by a newline: \<^verbatim>\<open>split('\n')\<close> yields 1501 pieces, the last of
  them empty, and the last 1000 pieces are the last 999 lines and that empty piece. The
  route returns the last 999 lines, in order, not the last 1000.
\<close>

theorem get_bot_logs_1500_lines_returns_999:
  assumes "map_of (bots_db s) bot_id = Some b"
    and "length ls = 1500"
    and "\<forall>l\<in>set ls. CHR 0x0A \<notin> set l"
    and "files (os s) (log_path bot_id) = Some (concat (map (\<lambda>l. l @ [CHR 0x0A]) ls))"
    and "raises (os s) (ReadText (log_path bot_id)) = None"
  shows "get_bot_logs s bot_id =
     (JObj [(''success'', JBool True),
            (''logs'', JStr (concat (map (\<lambda>l. l @ [CHR 0x0A]) (drop 501 ls))))], 200)"
  unfolding get_bot_logs_reads [OF assms(1,4,5)] split_nl_terminated [OF assms(3)]
    last_n_terminated [OF assms(2)] join_nl_terminated
  using assms(2) by simp

text \<open>When the 1500th line is not ended by a newline, the pieces are the lines and the
  route returns the last 1000 of them.\<close>

lemma get_bot_logs_1500_unterminated:
  assumes "map_of (bots_db s) bot_id = Some b"
    and "length ls = 1500"
    and "\<forall>l\<in>set ls. CHR 0x0A \<notin> set l"
    and "files (os s) (log_path bot_id) = Some (join_nl ls)"
    and "raises (os s) (ReadText (log_path bot_id)) = None"
  shows "get_bot_logs s bot_id =
     (JObj [(''success'', JBool True), (''logs'', JStr (join_nl (drop 500 ls)))], 200)"
proof -
  from assms(2) have "ls \<noteq> []" by auto
  note sp = split_nl_joined [OF this assms(3)]
  show ?thesis
    unfolding get_bot_logs_reads [OF assms(1,4,5)] sp using assms(2) by (simp add: last_n_def)
qed

text \<open>The last 999 lines of the example log are not its last 1000 lines.\<close>

lemma ex_logged_line_501_missing:
  "concat (map (\<lambda>l. l @ [CHR 0x0A]) (map string_of_nat [502..<1501]))
     \<noteq> concat (map (\<lambda>l. l @ [CHR 0x0A]) (map string_of_nat [501..<1501]))"
proof -
  let ?X = "concat (map (\<lambda>l. l @ [CHR 0x0A]) (map string_of_nat [502..<1501]))"
  have u: "[501..<1501] = 501 # [502..<1501]"
    by (rule trans [OF upt_conv_Cons]) (simp_all del: upt_rec_numeral)
  have "concat (map (\<lambda>l. l @ [CHR 0x0A]) (map string_of_nat [501..<1501]))
          = (string_of_nat 501 @ [CHR 0x0A]) @ ?X"
    unfolding u by (simp del: string_of_nat.simps upt_rec_numeral)
  moreover have "length ?X < length ((string_of_nat 501 @ [CHR 0x0A]) @ ?X)"
    by (simp del: string_of_nat.simps upt_rec_numeral)
  ultimately show ?thesis
    by (metis less_irrefl)
qed

text \<open>The log with the lines \<^verbatim>\<open>1\<close> to \<^verbatim>\<open>1500\<close>: the answer begins at line 502, and
  is not the text of the last 1000 lines.\<close>

theorem get_bot_logs_1500_lines_returns_999_witness:
  "map_of (bots_db ex_logged) ''alice_bot_1700000000'' = Some ex_bot \<and>
   length (map string_of_nat [1..<1501]) = 1500 \<and>
   files (os ex_logged) (log_path ''alice_bot_1700000000'')
     = Some (concat (map (\<lambda>l. l @ [CHR 0x0A]) (map string_of_nat [1..<1501]))) \<and>
   raises (os ex_logged) (ReadText (log_path ''alice_bot_1700000000'')) = None \<and>
   get_bot_logs ex_logged ''alice_bot_1700000000'' =
     (JObj [(''success'', JBool True),
            (''logs'', JStr (concat (map (\<lambda>l. l @ [CHR 0x0A])
                                       (map string_of_nat [502..<1501]))))], 200) \<and>
   get_bot_logs ex_logged ''alice_bot_1700000000'' \<noteq>
     (JObj [(''success'', JBool True),
            (''logs'', JStr (concat (map (\<lambda>l. l @ [CHR 0x0A])
                                       (map string_of_nat [501..<1501]))))], 200)"
proof -
  have 1: "map_of (bots_db ex_logged) ''alice_bot_1700000000'' = Some ex_bot"
    by (simp add: ex_logged_def ex_uploaded_def)
  have 2: "length (map string_of_nat [1..<1501]) = 1500"
    by (simp del: upt_rec_numeral)
  have 3: "\<forall>l\<in>set (map string_of_nat [1..<1501]). CHR 0x0A \<notin> set l"
    using string_of_nat_one_line by (simp del: string_of_nat.simps upt_rec_numeral)
  have 4: "files (os ex_logged) (log_path ''alice_bot_1700000000'')
     = Some (concat (map (\<lambda>l. l @ [CHR 0x0A]) (map string_of_nat [1..<1501])))"
    unfolding ex_log_path by (simp add: ex_logged_def del: string_of_nat.simps upt_rec_numeral)
  have 5: "raises (os ex_logged) (ReadText (log_path ''alice_bot_1700000000'')) = None"
    by (simp add: ex_logged_def ex_uploaded_def ex_os_def)
  have 6: "drop 501 (map string_of_nat [1..<1501]) = map string_of_nat [502..<1501]"
    by (simp add: drop_map del: string_of_nat.simps upt_rec_numeral)
  note r = get_bot_logs_1500_lines_returns_999 [OF 1 2 3 4 5, unfolded 6]
  have 7: "get_bot_logs ex_logged ''alice_bot_1700000000'' \<noteq>
     (JObj [(''success'', JBool True),
            (''logs'', JStr (concat (map (\<lambda>l. l @ [CHR 0x0A])
                                       (map string_of_nat [501..<1501]))))], 200)"
    unfolding r using ex_logged_line_501_missing
    by (simp del: string_of_nat.simps upt_rec_numeral)
  from 1 2 4 5 r 7 show ?thesis by (intro conjI)
qed

end
